theory Spec2Isabelle
  imports Complex_Main "HOL-Library.Word"
begin

section \<open>Protocol parameters and slot-clock arithmetic\<close>

text \<open>
  The running testnet (\<^verbatim>\<open>simulators/eth2/common/testnet/running_testnet.go\<close>) works on
  Go's fixed-width integers: \<^verbatim>\<open>common.Slot\<close>, \<^verbatim>\<open>common.Epoch\<close>, \<^verbatim>\<open>common.Timestamp\<close> and
  \<^verbatim>\<open>common.Gwei\<close> are \<^verbatim>\<open>uint64\<close>, and a \<^verbatim>\<open>time.Duration\<close> is an \<^verbatim>\<open>int64\<close> count of
  nanoseconds. They are 64-bit words here: \<open>+\<close>, \<open>-\<close> and \<open>*\<close> wrap around, \<open>unat\<close> reads
  a word as unsigned and \<open>sint\<close> as two's complement.
\<close>

type_synonym uint64 = "64 word"
type_synonym Slot = "64 word"
type_synonym Epoch = "64 word"
type_synonym Duration = "64 word"

text \<open>
  The fields of \<^verbatim>\<open>common.Spec\<close> that this file reads. The type is declared in the
  consensus library; only its fields' names and widths are used.
\<close>

record Spec =
  SLOTS_PER_EPOCH :: Slot
  SECONDS_PER_SLOT :: uint64
  BASE_REWARD_FACTOR :: uint64
  HYSTERESIS_QUOTIENT :: uint64

definition MAX_PARTICIPATION_SCORE :: int where
  "MAX_PARTICIPATION_SCORE = 7"

definition slotsTolerance :: Slot where
  "slotsTolerance = 2"

text \<open>\<^verbatim>\<open>time.Second\<close>: the number of nanoseconds in a second, as a \<^verbatim>\<open>time.Duration\<close>.\<close>

definition Second :: Duration where
  "Second = 1000000000"

text \<open>
  The four timeout helpers. Each model returns the \<^verbatim>\<open>time.Duration\<close> that the source
  passes to \<^verbatim>\<open>context.WithTimeout\<close> or to \<^verbatim>\<open>time.After\<close>: a \<^verbatim>\<open>uint64\<close> product, converted
  to \<^verbatim>\<open>int64\<close> bit for bit, times \<^verbatim>\<open>time.Second\<close>.
\<close>

definition EpochTimeoutContext :: "Spec \<Rightarrow> Epoch \<Rightarrow> Duration" where
  "EpochTimeoutContext spec epochs =
     ((SLOTS_PER_EPOCH spec * epochs + slotsTolerance) * SECONDS_PER_SLOT spec) * Second"

definition SlotTimeoutContext :: "Spec \<Rightarrow> Slot \<Rightarrow> Duration" where
  "SlotTimeoutContext spec slots =
     ((slots + slotsTolerance) * SECONDS_PER_SLOT spec) * Second"

definition EpochsTimeout :: "Spec \<Rightarrow> Epoch \<Rightarrow> Duration" where
  "EpochsTimeout spec epochs =
     ((SLOTS_PER_EPOCH spec * epochs) * SECONDS_PER_SLOT spec) * Second"

definition SlotsTimeout :: "Spec \<Rightarrow> Slot \<Rightarrow> Duration" where
  "SlotsTimeout spec slots = (slots * SECONDS_PER_SLOT spec) * Second"

text \<open>The duration, read as Go reads an \<^verbatim>\<open>int64\<close>, in nanoseconds.\<close>

definition nanoseconds :: "Duration \<Rightarrow> int" where
  "nanoseconds d = sint d"

text \<open>Whether a number of whole seconds fits a \<^verbatim>\<open>time.Duration\<close>.\<close>

definition fits_Duration :: "nat \<Rightarrow> bool" where
  "fits_Duration secs \<longleftrightarrow> secs * 1000000000 < 2 ^ 63"

section \<open>Identifiers, client responses and errors\<close>

text \<open>
  \<^verbatim>\<open>tree.Root\<close> and \<^verbatim>\<open>ethcommon.Hash\<close> are 32-byte arrays compared byte by byte; a
  256-bit word holds the same information, and the zero word is the all-zero array.
\<close>

type_synonym Root = "256 word"
type_synonym Hash = "256 word"

definition EMPTY_EXEC_HASH :: Hash where
  "EMPTY_EXEC_HASH = 0"

definition EMPTY_TREE_ROOT :: Root where
  "EMPTY_TREE_ROOT = 0"

record Checkpoint =
  Epoch :: Epoch
  Root :: Root

text \<open>\<^verbatim>\<open>common.Checkpoint{}\<close>, the zero value.\<close>

definition empty_Checkpoint :: Checkpoint where
  "empty_Checkpoint = \<lparr>Epoch = 0, Root = 0\<rparr>"

record FinalityCheckpoints =
  PreviousJustified :: Checkpoint
  CurrentJustified :: Checkpoint
  Finalized :: Checkpoint

text \<open>
  What the wait functions read of a versioned signed block: its fork name, \<^verbatim>\<open>Slot()\<close>,
  \<^verbatim>\<open>Root()\<close> and, when \<^verbatim>\<open>ExecutionPayload()\<close> returns no error, the payload's block hash.
\<close>

record VersionedBlock =
  Version :: string
  Slot :: Slot
  Root_of :: Root
  ExecutionPayload :: "Hash option"

datatype error =
    ContextError string
  | ClientError string
  | Wrap error string
  | MissedSlots Slot Slot Slot
  | UnableToSync Slot Slot
  | NodeUnresponsive nat
  | FailedToRetrieveState error
  | CalculateParticipation
  | FailedToRetrieveBalances error

text \<open>
  The answers one node's clients give during one tick. Every query is a call to an
  external client; the model takes its answer as an input. \<open>status\<close> is the line that
  \<^verbatim>\<open>fmt.Sprintf\<close> renders for the log from the tick's answers (the health figure printed
  in it comes from \<^verbatim>\<open>GetHealth\<close>, modelled further below; no decision depends on it).
\<close>

record node_responses =
  BlockFinalityCheckpoints :: "error + FinalityCheckpoints"
  BlockV2 :: "error + VersionedBlock"
  BlockV2_by_root :: "Root \<Rightarrow> error + VersionedBlock"
  TotalDifficultyByNumber :: "error + int"
  status :: string

type_synonym node = nat

text \<open>
  One firing of the slot ticker: the time it carries (Unix nanoseconds), the clock slot
  \<^verbatim>\<open>TimeToSlot\<close> gives for the wall clock, the answers of every node, and the order in
  which the probes that send on a channel reach it (positions in the running-node list;
  the goroutines are not ordered).
\<close>

record tick =
  tim :: int
  clockSlot :: Slot
  responses :: "node \<Rightarrow> node_responses"
  arrival :: "nat list"

datatype event = CtxDone error | TimerTick tick

text \<open>How a Go call ends: with a value, with an error value, or with a run-time panic.\<close>

datatype panic =
    IndexOutOfRange nat nat
  | NilPointerDereference
  | IntegerDivideByZero
  | BigDivisionByZero
  | TypeAssertionFailed

datatype 'a ret = Ok 'a | Err error | Panic panic

record Testnet =
  spec :: Spec
  genesisTime :: uint64
  maxConsecutiveErrorsOnWaits :: int
  TerminalTotalDifficulty :: "int option"

section \<open>The per-tick result set\<close>

text \<open>The dynamic value a probe stores in \<^verbatim>\<open>r.result\<close> (an \<^verbatim>\<open>interface{}\<close>).\<close>

datatype rvalue = NoValue | CheckpointValue Checkpoint | HashValue Hash

record result =
  msg :: string
  err :: "error option"
  fatal :: "error option"
  done' :: bool
  result :: rvalue
  errCount :: nat

record resultsArr =
  slots :: "result list"
  maxErr :: int

text \<open>
  Modelled from the spec: \<^verbatim>\<open>makeResults\<close>, \<^verbatim>\<open>Clear\<close>, \<^verbatim>\<open>CheckError\<close> and \<^verbatim>\<open>AllDone\<close> of the
  result set are called by this file but declared elsewhere in the package. They follow
  section 4.2 of the specification: one slot per node with its counter at 0; \<open>Clear\<close>
  empties the per-tick fields and keeps the counters; \<open>Record\<close> increments a slot's
  consecutive-error counter when the probe left a recoverable error and resets it
  otherwise; \<open>CheckError\<close> returns the first fatal outcome, else a node-unresponsive
  error for the first slot whose counter has reached the maximum, else nothing;
  \<open>AllDone\<close> holds iff every slot is done, and not for an empty set.
\<close>

definition fresh_result :: result where
  "fresh_result =
     \<lparr>msg = [], err = None, fatal = None, done' = False, result = NoValue, errCount = 0\<rparr>"

definition makeResults :: "node list \<Rightarrow> int \<Rightarrow> resultsArr" where
  "makeResults nodes m = \<lparr>slots = map (\<lambda>_. fresh_result) nodes, maxErr = m\<rparr>"

definition clear_result :: "result \<Rightarrow> result" where
  "clear_result r = r\<lparr>msg := [], err := None, fatal := None, done' := False, result := NoValue\<rparr>"

definition Clear :: "resultsArr \<Rightarrow> resultsArr" where
  "Clear rs = rs\<lparr>slots := map clear_result (slots rs)\<rparr>"

definition Record :: "result \<Rightarrow> result" where
  "Record r = r\<lparr>errCount := (if err r \<noteq> None then Suc (errCount r) else 0)\<rparr>"

fun first_fatal :: "result list \<Rightarrow> error option" where
  "first_fatal [] = None"
| "first_fatal (r # rs) = (case fatal r of Some e \<Rightarrow> Some e | None \<Rightarrow> first_fatal rs)"

fun first_unresponsive :: "int \<Rightarrow> nat \<Rightarrow> result list \<Rightarrow> error option" where
  "first_unresponsive m i [] = None"
| "first_unresponsive m i (r # rs) =
     (if m \<le> int (errCount r) then Some (NodeUnresponsive i)
      else first_unresponsive m (Suc i) rs)"

definition CheckError :: "resultsArr \<Rightarrow> error option" where
  "CheckError rs =
     (case first_fatal (slots rs) of
        Some e \<Rightarrow> Some e
      | None \<Rightarrow> first_unresponsive (maxErr rs) 0 (slots rs))"

definition AllDone :: "resultsArr \<Rightarrow> bool" where
  "AllDone rs \<longleftrightarrow> slots rs \<noteq> [] \<and> list_all done' (slots rs)"

section \<open>The probes\<close>

text \<open>
  Each wait function starts one goroutine per running node and tick. The goroutine
  writes to its own slot \<open>r\<close> of the result set and to nothing else, so a probe is a
  function from the node's answers and the cleared slot to the slot it leaves behind.
  An early \<^verbatim>\<open>return\<close> of the goroutine is a branch that leaves the remaining fields alone.
\<close>

definition WaitSlotsWithMaxMissedSlots_probe ::
  "Slot \<Rightarrow> Slot \<Rightarrow> node_responses \<Rightarrow> result \<Rightarrow> result" where
  "WaitSlotsWithMaxMissedSlots_probe maxMissedSlots clock n r =
     (case BlockFinalityCheckpoints n of
        Inl e \<Rightarrow> r\<lparr>err := Some (Wrap e ''failed to poll finality checkpoint'')\<rparr>
      | Inr checkpoints \<Rightarrow>
          (case BlockV2 n of
             Inl e \<Rightarrow> r\<lparr>err := Some (Wrap e ''failed to retrieve block'')\<rparr>
           | Inr versionedBlock \<Rightarrow>
               if clock > Slot versionedBlock
                  \<and> clock - Slot versionedBlock \<ge> maxMissedSlots
               then r\<lparr>fatal := Some (MissedSlots maxMissedSlots clock (Slot versionedBlock))\<rparr>
               else r\<lparr>msg := status n\<rparr>))"

definition WaitForFork_probe ::
  "Testnet \<Rightarrow> string \<Rightarrow> Slot \<Rightarrow> node_responses \<Rightarrow> result \<Rightarrow> result" where
  "WaitForFork_probe t fork clock n r =
     (case BlockFinalityCheckpoints n of
        Inl e \<Rightarrow> r\<lparr>err := Some (Wrap e ''failed to poll finality checkpoint'')\<rparr>
      | Inr checkpoints \<Rightarrow>
          (case BlockV2 n of
             Inl e \<Rightarrow> r\<lparr>err := Some (Wrap e ''failed to retrieve block'')\<rparr>
           | Inr versionedBlock \<Rightarrow>
               if clock > Slot versionedBlock
                  \<and> clock - Slot versionedBlock \<ge> SLOTS_PER_EPOCH (spec t)
               then r\<lparr>fatal := Some (UnableToSync clock (Slot versionedBlock))\<rparr>
               else if Version versionedBlock = fork
               then r\<lparr>msg := status n, done' := True\<rparr>
               else r\<lparr>msg := status n\<rparr>))"

definition WaitForFinality_probe ::
  "Testnet \<Rightarrow> Slot \<Rightarrow> node_responses \<Rightarrow> result \<Rightarrow> result" where
  "WaitForFinality_probe t clock n r =
     (case BlockFinalityCheckpoints n of
        Inl e \<Rightarrow> r\<lparr>err := Some (Wrap e ''failed to poll finality checkpoint'')\<rparr>
      | Inr checkpoints \<Rightarrow>
          (case BlockV2 n of
             Inl e \<Rightarrow> r\<lparr>err := Some (Wrap e ''failed to retrieve block'')\<rparr>
           | Inr versionedBlock \<Rightarrow>
               if clock > Slot versionedBlock
                  \<and> clock - Slot versionedBlock \<ge> SLOTS_PER_EPOCH (spec t)
               then r\<lparr>fatal := Some (UnableToSync clock (Slot versionedBlock))\<rparr>
               else if Finalized checkpoints \<noteq> empty_Checkpoint
               then r\<lparr>msg := status n, done' := True,
                      result := CheckpointValue (Finalized checkpoints)\<rparr>
               else r\<lparr>msg := status n\<rparr>))"

text \<open>
  The probe of \<^verbatim>\<open>WaitForSync\<close> has no head-lag rule. After the block query it sends the
  block's root on the channel \<^verbatim>\<open>heads\<close>: \<open>sent_head\<close> is what the node contributes to it.
\<close>

definition WaitForSync_probe :: "node_responses \<Rightarrow> result \<Rightarrow> result" where
  "WaitForSync_probe n r =
     (case BlockFinalityCheckpoints n of
        Inl e \<Rightarrow> r\<lparr>err := Some (Wrap e ''failed to poll finality checkpoint'')\<rparr>
      | Inr checkpoints \<Rightarrow>
          (case BlockV2 n of
             Inl e \<Rightarrow> r\<lparr>err := Some (Wrap e ''failed to retrieve block'')\<rparr>
           | Inr versionedBlock \<Rightarrow>
               if Finalized checkpoints \<noteq> empty_Checkpoint
               then r\<lparr>msg := status n, done' := True,
                      result := CheckpointValue (Finalized checkpoints)\<rparr>
               else r\<lparr>msg := status n\<rparr>))"

definition sent_head :: "node_responses \<Rightarrow> Root option" where
  "sent_head n =
     (case BlockFinalityCheckpoints n of
        Inl e \<Rightarrow> None
      | Inr checkpoints \<Rightarrow>
          (case BlockV2 n of
             Inl e \<Rightarrow> None
           | Inr versionedBlock \<Rightarrow> Some (Root_of versionedBlock)))"

definition WaitForExecutionFinality_probe ::
  "Testnet \<Rightarrow> Slot \<Rightarrow> node_responses \<Rightarrow> result \<Rightarrow> result" where
  "WaitForExecutionFinality_probe t clock n r =
     (case BlockV2 n of
        Inl e \<Rightarrow> r\<lparr>err := Some (Wrap e ''failed to poll head'')\<rparr>
      | Inr headBlock \<Rightarrow>
          if clock > Slot headBlock \<and> clock - Slot headBlock \<ge> SLOTS_PER_EPOCH (spec t)
          then r\<lparr>fatal := Some (UnableToSync clock (Slot headBlock))\<rparr>
          else
            (case BlockFinalityCheckpoints n of
               Inl e \<Rightarrow> r\<lparr>err := Some (Wrap e ''failed to poll finality checkpoint'')\<rparr>
             | Inr checkpoints \<Rightarrow>
                 if Finalized checkpoints \<noteq> empty_Checkpoint
                 then
                   (case BlockV2_by_root n (Root (Finalized checkpoints)) of
                      Inl e \<Rightarrow> r\<lparr>err := Some (Wrap e ''failed to retrieve block'')\<rparr>
                    | Inr finalizedBlock \<Rightarrow>
                        (case ExecutionPayload finalizedBlock of
                           None \<Rightarrow> r\<lparr>msg := status n\<rparr>
                         | Some finalizedExecution \<Rightarrow>
                             if finalizedExecution \<noteq> EMPTY_EXEC_HASH
                             then r\<lparr>msg := status n, done' := True,
                                    result := CheckpointValue (Finalized checkpoints)\<rparr>
                             else r\<lparr>msg := status n\<rparr>))
                 else r\<lparr>msg := status n\<rparr>))"

definition WaitForCurrentEpochFinalization_probe ::
  "Testnet \<Rightarrow> Epoch \<Rightarrow> Slot \<Rightarrow> node_responses \<Rightarrow> result \<Rightarrow> result" where
  "WaitForCurrentEpochFinalization_probe t epochToBeFinalized clock n r =
     (case BlockV2 n of
        Inl e \<Rightarrow> r\<lparr>err := Some (Wrap e ''failed to poll head'')\<rparr>
      | Inr headInfo \<Rightarrow>
          if clock > Slot headInfo \<and> clock - Slot headInfo \<ge> SLOTS_PER_EPOCH (spec t)
          then r\<lparr>fatal := Some (UnableToSync clock (Slot headInfo))\<rparr>
          else
            (case BlockFinalityCheckpoints n of
               Inl e \<Rightarrow> r\<lparr>err := Some (Wrap e ''failed to poll finality checkpoint'')\<rparr>
             | Inr checkpoints \<Rightarrow>
                 if Finalized checkpoints \<noteq> empty_Checkpoint
                    \<and> Epoch (Finalized checkpoints) \<ge> epochToBeFinalized
                 then r\<lparr>msg := status n, done' := True,
                        result := CheckpointValue (Finalized checkpoints)\<rparr>
                 else r\<lparr>msg := status n\<rparr>))"

definition WaitForExecutionPayload_probe ::
  "Testnet \<Rightarrow> Slot \<Rightarrow> node_responses \<Rightarrow> result \<Rightarrow> result" where
  "WaitForExecutionPayload_probe t clock n r =
     (case BlockV2 n of
        Inl e \<Rightarrow> r\<lparr>err := Some (Wrap e ''failed to retrieve block'')\<rparr>
      | Inr versionedBlock \<Rightarrow>
          if clock > Slot versionedBlock
             \<and> clock - Slot versionedBlock \<ge> SLOTS_PER_EPOCH (spec t)
          then r\<lparr>fatal := Some (UnableToSync clock (Slot versionedBlock))\<rparr>
          else
            (case ExecutionPayload versionedBlock of
               None \<Rightarrow> r\<lparr>msg := status n\<rparr>
             | Some executionHash \<Rightarrow>
                 if executionHash \<noteq> EMPTY_EXEC_HASH
                 then r\<lparr>msg := status n, done' := True, result := HashValue executionHash\<rparr>
                 else r\<lparr>msg := status n\<rparr>))"

section \<open>One tick of each wait function\<close>

text \<open>
  \<^verbatim>\<open>tim.Before(genesis.Add(slotDuration))\<close>: ticks before the end of the first slot are
  skipped.
\<close>

definition slotDuration :: "Testnet \<Rightarrow> Duration" where
  "slotDuration t = SECONDS_PER_SLOT (spec t) * Second"

definition GenesisTimeUnix :: "Testnet \<Rightarrow> int" where
  "GenesisTimeUnix t = sint (genesisTime t) * 1000000000"

definition before_first_slot :: "Testnet \<Rightarrow> tick \<Rightarrow> bool" where
  "before_first_slot t tk \<longleftrightarrow> tim tk < GenesisTimeUnix t + nanoseconds (slotDuration t)"

text \<open>
  \<^verbatim>\<open>results.Clear()\<close>, the fan-out of one probe per running node on its own slot, and the
  barrier \<^verbatim>\<open>wg.Wait()\<close>, after which the counters are brought up to date.
\<close>

definition probe_all ::
  "(node_responses \<Rightarrow> result \<Rightarrow> result) \<Rightarrow> tick \<Rightarrow> node list \<Rightarrow> resultsArr \<Rightarrow> resultsArr" where
  "probe_all probe tk runningNodes rs =
     rs\<lparr>slots := map Record
          (map2 (\<lambda>n r. probe (responses tk n) r) runningNodes (slots (Clear rs)))\<rparr>"

text \<open>
  What each loop body does after the barrier. \<open>None\<close> means that the loop goes on to
  the next tick. \<^verbatim>\<open>PrintMessages\<close> only writes to the log and is left out.
\<close>

definition WaitSlotsWithMaxMissedSlots_after ::
  "Slot \<Rightarrow> resultsArr \<Rightarrow> Slot \<Rightarrow> unit ret option \<times> Slot" where
  "WaitSlotsWithMaxMissedSlots_after nSlots rs slotsPassed =
     (case CheckError rs of
        Some e \<Rightarrow> (Some (Err e), slotsPassed)
      | None \<Rightarrow>
          if slotsPassed + 1 \<ge> nSlots then (Some (Ok ()), slotsPassed + 1)
          else (None, slotsPassed + 1))"

definition WaitForFork_after :: "resultsArr \<Rightarrow> unit ret option" where
  "WaitForFork_after rs =
     (case CheckError rs of
        Some e \<Rightarrow> Some (Err e)
      | None \<Rightarrow> if AllDone rs then Some (Ok ()) else None)"

text \<open>
  \<^verbatim>\<open>results[0].result.(common.Checkpoint)\<close>: the first slot is indexed, which panics on
  an empty set, and the type assertion with \<^verbatim>\<open>ok\<close> falls through when the value is of
  another type.
\<close>

definition first_Checkpoint :: "resultsArr \<Rightarrow> Checkpoint ret option" where
  "first_Checkpoint rs =
     (case slots rs of
        [] \<Rightarrow> Some (Panic (IndexOutOfRange 0 0))
      | r0 # _ \<Rightarrow> (case result r0 of CheckpointValue cp \<Rightarrow> Some (Ok cp) | _ \<Rightarrow> None))"

definition first_Hash :: "resultsArr \<Rightarrow> Hash ret option" where
  "first_Hash rs =
     (case slots rs of
        [] \<Rightarrow> Some (Panic (IndexOutOfRange 0 0))
      | r0 # _ \<Rightarrow> (case result r0 of HashValue h \<Rightarrow> Some (Ok h) | _ \<Rightarrow> None))"

definition WaitForFinality_after :: "resultsArr \<Rightarrow> Checkpoint ret option" where
  "WaitForFinality_after rs =
     (case CheckError rs of
        Some e \<Rightarrow> Some (Err e)
      | None \<Rightarrow> if AllDone rs then first_Checkpoint rs else None)"

text \<open>
  The comparison loop of \<^verbatim>\<open>WaitForSync\<close> over the closed channel: \<open>head\<close> takes the next
  value while it is still the empty root, and any later value that differs from it
  clears \<open>ok\<close> and leaves the loop.
\<close>

fun compare_heads :: "Root \<Rightarrow> Root list \<Rightarrow> Root \<times> bool" where
  "compare_heads head [] = (head, True)"
| "compare_heads head (h # hs) =
     (if head = EMPTY_TREE_ROOT then compare_heads h hs
      else if head \<noteq> h then (head, False)
      else compare_heads head hs)"

definition WaitForSync_after :: "resultsArr \<Rightarrow> Root list \<Rightarrow> Root ret option" where
  "WaitForSync_after rs heads =
     (case CheckError rs of
        Some e \<Rightarrow> Some (Err e)
      | None \<Rightarrow>
          (case compare_heads 0 heads of
             (head, ok) \<Rightarrow> if ok \<and> head \<noteq> EMPTY_TREE_ROOT then Some (Ok head) else None))"

definition WaitForExecutionFinality_after :: "resultsArr \<Rightarrow> Checkpoint ret option" where
  "WaitForExecutionFinality_after rs =
     (case CheckError rs of
        Some e \<Rightarrow> Some (Err e)
      | None \<Rightarrow> if AllDone rs then first_Checkpoint rs else None)"

definition WaitForCurrentEpochFinalization_after :: "resultsArr \<Rightarrow> Checkpoint ret option" where
  "WaitForCurrentEpochFinalization_after rs =
     (case CheckError rs of
        Some e \<Rightarrow> Some (Err e)
      | None \<Rightarrow> if AllDone rs then first_Checkpoint rs else None)"

definition WaitForExecutionPayload_after :: "resultsArr \<Rightarrow> Hash ret option" where
  "WaitForExecutionPayload_after rs =
     (case CheckError rs of
        Some e \<Rightarrow> Some (Err e)
      | None \<Rightarrow> if AllDone rs then first_Hash rs else None)"

text \<open>
  The loop bodies for one ticker event. Each returns what the call returns on this tick,
  if it returns, and the state the next iteration starts from.
\<close>

definition WaitSlotsWithMaxMissedSlots_tick ::
  "Testnet \<Rightarrow> node list \<Rightarrow> Slot \<Rightarrow> Slot \<Rightarrow> resultsArr \<times> Slot \<Rightarrow> tick
     \<Rightarrow> unit ret option \<times> (resultsArr \<times> Slot)" where
  "WaitSlotsWithMaxMissedSlots_tick t runningNodes nSlots maxMissedSlots st tk =
     (case st of (rs, slotsPassed) \<Rightarrow>
        if before_first_slot t tk then (None, st)
        else
          let rs' = probe_all (WaitSlotsWithMaxMissedSlots_probe maxMissedSlots (clockSlot tk))
                      tk runningNodes rs
          in (case WaitSlotsWithMaxMissedSlots_after nSlots rs' slotsPassed of
                (out, slotsPassed') \<Rightarrow> (out, (rs', slotsPassed'))))"

definition WaitForFork_tick ::
  "Testnet \<Rightarrow> node list \<Rightarrow> string \<Rightarrow> resultsArr \<Rightarrow> tick \<Rightarrow> unit ret option \<times> resultsArr" where
  "WaitForFork_tick t runningNodes fork rs tk =
     (if before_first_slot t tk then (None, rs)
      else
        let rs' = probe_all (WaitForFork_probe t fork (clockSlot tk)) tk runningNodes rs
        in (WaitForFork_after rs', rs'))"

definition WaitForFinality_tick ::
  "Testnet \<Rightarrow> node list \<Rightarrow> resultsArr \<Rightarrow> tick \<Rightarrow> Checkpoint ret option \<times> resultsArr" where
  "WaitForFinality_tick t runningNodes rs tk =
     (if before_first_slot t tk then (None, rs)
      else
        let rs' = probe_all (WaitForFinality_probe t (clockSlot tk)) tk runningNodes rs
        in (WaitForFinality_after rs', rs'))"

text \<open>
  The channel \<^verbatim>\<open>heads\<close> after the barrier: the roots of the nodes whose two queries
  succeeded, in the order in which their probes reached the send.
\<close>

definition heads_received :: "tick \<Rightarrow> node list \<Rightarrow> Root list" where
  "heads_received tk runningNodes =
     List.map_filter (\<lambda>i. sent_head (responses tk (runningNodes ! i)))
       (filter (\<lambda>i. i < length runningNodes) (arrival tk))"

definition WaitForSync_tick ::
  "Testnet \<Rightarrow> node list \<Rightarrow> resultsArr \<Rightarrow> tick \<Rightarrow> Root ret option \<times> resultsArr" where
  "WaitForSync_tick t runningNodes rs tk =
     (if before_first_slot t tk then (None, rs)
      else
        let rs' = probe_all WaitForSync_probe tk runningNodes rs
        in (WaitForSync_after rs' (heads_received tk runningNodes), rs'))"

definition WaitForExecutionFinality_tick ::
  "Testnet \<Rightarrow> node list \<Rightarrow> resultsArr \<Rightarrow> tick \<Rightarrow> Checkpoint ret option \<times> resultsArr" where
  "WaitForExecutionFinality_tick t runningNodes rs tk =
     (if before_first_slot t tk then (None, rs)
      else
        let rs' = probe_all (WaitForExecutionFinality_probe t (clockSlot tk)) tk runningNodes rs
        in (WaitForExecutionFinality_after rs', rs'))"

definition WaitForCurrentEpochFinalization_tick ::
  "Testnet \<Rightarrow> node list \<Rightarrow> Epoch \<Rightarrow> resultsArr \<Rightarrow> tick
     \<Rightarrow> Checkpoint ret option \<times> resultsArr" where
  "WaitForCurrentEpochFinalization_tick t runningNodes epochToBeFinalized rs tk =
     (if before_first_slot t tk then (None, rs)
      else
        let rs' = probe_all
                    (WaitForCurrentEpochFinalization_probe t epochToBeFinalized (clockSlot tk))
                    tk runningNodes rs
        in (WaitForCurrentEpochFinalization_after rs', rs'))"

text \<open>
  \<^verbatim>\<open>WaitForExecutionPayload\<close> first passes its gate on the terminal total difficulty. While
  \<open>ttdReached\<close> is unset the execution client is asked for the total difficulty: a value
  at or above the terminal one sets the flag, a smaller value ends the iteration
  (\<^verbatim>\<open>continue\<close>), and a failed query is logged and falls through to the probes with the
  flag still unset. \<^verbatim>\<open>td.Cmp\<close> on a nil terminal difficulty dereferences a nil pointer.
\<close>

datatype gate = Skip | Proceed bool | GatePanic panic

definition ttd_gate :: "Testnet \<Rightarrow> node_responses \<Rightarrow> bool \<Rightarrow> gate" where
  "ttd_gate t executionClient ttdReached =
     (if \<not> ttdReached then
        (case TotalDifficultyByNumber executionClient of
           Inr td \<Rightarrow>
             (case TerminalTotalDifficulty t of
                None \<Rightarrow> GatePanic NilPointerDereference
              | Some ttd \<Rightarrow> if td \<ge> ttd then Proceed True else Skip)
         | Inl e \<Rightarrow> Proceed ttdReached)
      else Proceed ttdReached)"

definition WaitForExecutionPayload_tick ::
  "Testnet \<Rightarrow> node list \<Rightarrow> node \<Rightarrow> resultsArr \<times> bool \<Rightarrow> tick
     \<Rightarrow> Hash ret option \<times> (resultsArr \<times> bool)" where
  "WaitForExecutionPayload_tick t runningNodes executionClient st tk =
     (case st of (rs, ttdReached) \<Rightarrow>
        if before_first_slot t tk then (None, st)
        else
          (case ttd_gate t (responses tk executionClient) ttdReached of
             GatePanic p \<Rightarrow> (Some (Panic p), st)
           | Skip \<Rightarrow> (None, st)
           | Proceed ttdReached' \<Rightarrow>
               let rs' = probe_all (WaitForExecutionPayload_probe t (clockSlot tk))
                           tk runningNodes rs
               in (WaitForExecutionPayload_after rs', (rs', ttdReached'))))"

section \<open>The wait loops\<close>

text \<open>
  Every wait function is \<^verbatim>\<open>for { select { case <-ctx.Done(): ... case tim := <-timer.C: ... } }\<close>.
  The events the \<^verbatim>\<open>select\<close> receives are the input: the loop runs over their list and
  returns \<open>None\<close> when the list ends before the call has returned (the call is still
  blocked in \<^verbatim>\<open>select\<close>).
\<close>

fun wait_loop :: "('s \<Rightarrow> tick \<Rightarrow> 'a ret option \<times> 's) \<Rightarrow> 's \<Rightarrow> event list \<Rightarrow> 'a ret option" where
  "wait_loop body s [] = None"
| "wait_loop body s (CtxDone e # evs) = Some (Err e)"
| "wait_loop body s (TimerTick tk # evs) =
     (case body s tk of
        (Some out, _) \<Rightarrow> Some out
      | (None, s') \<Rightarrow> wait_loop body s' evs)"

text \<open>
  The state in which the loop stands after a list of events, when it has consumed them
  without returning: every one of them was a tick whose body did not return.
\<close>

fun loop_state :: "('s \<Rightarrow> tick \<Rightarrow> 'a ret option \<times> 's) \<Rightarrow> 's \<Rightarrow> event list \<Rightarrow> 's option" where
  "loop_state body s [] = Some s"
| "loop_state body s (CtxDone e # evs) = None"
| "loop_state body s (TimerTick tk # evs) =
     (case body s tk of
        (Some out, _) \<Rightarrow> None
      | (None, s') \<Rightarrow> loop_state body s' evs)"

definition WaitSlotsWithMaxMissedSlots ::
  "Testnet \<Rightarrow> node list \<Rightarrow> Slot \<Rightarrow> Slot \<Rightarrow> event list \<Rightarrow> unit ret option" where
  "WaitSlotsWithMaxMissedSlots t runningNodes nSlots maxMissedSlots evs =
     wait_loop (WaitSlotsWithMaxMissedSlots_tick t runningNodes nSlots maxMissedSlots)
       (makeResults runningNodes (maxConsecutiveErrorsOnWaits t), 0) evs"

definition WaitForFork :: "Testnet \<Rightarrow> node list \<Rightarrow> string \<Rightarrow> event list \<Rightarrow> unit ret option" where
  "WaitForFork t runningNodes fork evs =
     wait_loop (WaitForFork_tick t runningNodes fork)
       (makeResults runningNodes (maxConsecutiveErrorsOnWaits t)) evs"

definition WaitForFinality :: "Testnet \<Rightarrow> node list \<Rightarrow> event list \<Rightarrow> Checkpoint ret option" where
  "WaitForFinality t runningNodes evs =
     wait_loop (WaitForFinality_tick t runningNodes)
       (makeResults runningNodes (maxConsecutiveErrorsOnWaits t)) evs"

definition WaitForSync :: "Testnet \<Rightarrow> node list \<Rightarrow> event list \<Rightarrow> Root ret option" where
  "WaitForSync t runningNodes evs =
     wait_loop (WaitForSync_tick t runningNodes)
       (makeResults runningNodes (maxConsecutiveErrorsOnWaits t)) evs"

definition WaitForExecutionFinality ::
  "Testnet \<Rightarrow> node list \<Rightarrow> event list \<Rightarrow> Checkpoint ret option" where
  "WaitForExecutionFinality t runningNodes evs =
     wait_loop (WaitForExecutionFinality_tick t runningNodes)
       (makeResults runningNodes (maxConsecutiveErrorsOnWaits t)) evs"

text \<open>
  \<^verbatim>\<open>SlotToEpoch\<close> of the consensus library divides the slot by \<^verbatim>\<open>SLOTS_PER_EPOCH\<close>; Go's
  integer division panics on a zero divisor. \<^verbatim>\<open>WaitForCurrentEpochFinalization\<close> computes
  the epoch to be finalized once, from the clock slot at the time of the call
  (\<open>startSlot\<close>), before it enters the loop.
\<close>

definition SlotToEpoch :: "Spec \<Rightarrow> Slot \<Rightarrow> Epoch" where
  "SlotToEpoch sp s = s div SLOTS_PER_EPOCH sp"

definition WaitForCurrentEpochFinalization ::
  "Testnet \<Rightarrow> node list \<Rightarrow> Slot \<Rightarrow> event list \<Rightarrow> Checkpoint ret option" where
  "WaitForCurrentEpochFinalization t runningNodes startSlot evs =
     (if SLOTS_PER_EPOCH (spec t) = 0 then Some (Panic IntegerDivideByZero)
      else
        wait_loop
          (WaitForCurrentEpochFinalization_tick t runningNodes (SlotToEpoch (spec t) startSlot))
          (makeResults runningNodes (maxConsecutiveErrorsOnWaits t)) evs)"

text \<open>
  \<^verbatim>\<open>WaitForExecutionPayload\<close> takes \<^verbatim>\<open>runningNodes[0].ExecutionClient\<close> among its initial
  variables, before the loop and after \<^verbatim>\<open>makeResults\<close>.
\<close>

definition WaitForExecutionPayload ::
  "Testnet \<Rightarrow> node list \<Rightarrow> event list \<Rightarrow> Hash ret option" where
  "WaitForExecutionPayload t runningNodes evs =
     (case runningNodes of
        [] \<Rightarrow> Some (Panic (IndexOutOfRange 0 0))
      | executionClient # _ \<Rightarrow>
          wait_loop (WaitForExecutionPayload_tick t runningNodes executionClient)
            (makeResults runningNodes (maxConsecutiveErrorsOnWaits t), False) evs)"

section \<open>The health score\<close>

text \<open>
  A \<^verbatim>\<open>float64\<close> is one of: a finite number, an infinity, or NaN. A finite value is kept
  as the real number it stands for: the rounding of a conversion or of a quotient to
  the nearest binary64 value is not modelled, so a finite result here is the exact
  value that Go rounds. \<open>fdiv\<close> is Go's \<^verbatim>\<open>/\<close> on \<^verbatim>\<open>float64\<close> operands, which never panics:
  a non-zero number over zero is an infinity and zero over zero is NaN. The zeros that
  occur here are converted non-negative integers, so the sign of a zero is left out.
\<close>

datatype float64 = Num real | PosInf | NegInf | NaN

fun fdiv :: "float64 \<Rightarrow> float64 \<Rightarrow> float64" where
  "fdiv (Num a) (Num b) =
     (if b = 0 then (if a = 0 then NaN else if a > 0 then PosInf else NegInf)
      else Num (a / b))"
| "fdiv (Num a) PosInf = Num 0"
| "fdiv (Num a) NegInf = Num 0"
| "fdiv PosInf (Num b) = (if b \<ge> 0 then PosInf else NegInf)"
| "fdiv NegInf (Num b) = (if b \<ge> 0 then NegInf else PosInf)"
| "fdiv PosInf PosInf = NaN"
| "fdiv PosInf NegInf = NaN"
| "fdiv NegInf PosInf = NaN"
| "fdiv NegInf NegInf = NaN"
| "fdiv NaN y = NaN"
| "fdiv x NaN = NaN"

definition float64_of_int :: "int \<Rightarrow> float64" where
  "float64_of_int i = Num (of_int i)"

definition float64_of_uint64 :: "uint64 \<Rightarrow> float64" where
  "float64_of_uint64 w = Num (of_nat (unat w))"

text \<open>
  \<^verbatim>\<open>calcHealth\<close>: the participation flags are bytes, summed as Go \<^verbatim>\<open>int\<close>s (a sum of bytes
  over a slice that fits in memory stays far below \<open>2^63\<close>), averaged and divided by the
  maximum score in floating point.
\<close>

definition calcHealth :: "8 word list \<Rightarrow> float64" where
  "calcHealth p =
     (let sum = sum_list (map uint p);
          avg = fdiv (float64_of_int sum) (float64_of_int (int (length p)))
      in fdiv avg (float64_of_int MAX_PARTICIPATION_SCORE))"

text \<open>
  \<^verbatim>\<open>common.BASE_REWARDS_PER_EPOCH\<close> is a constant of the consensus library (4 in the
  phase0 specification).
\<close>

definition BASE_REWARDS_PER_EPOCH :: uint64 where
  "BASE_REWARDS_PER_EPOCH = 4"

text \<open>
  \<^verbatim>\<open>(*big.Int).Uint64\<close> returns the low 64 bits of the magnitude; \<^verbatim>\<open>int64(balance)\<close>
  reinterprets the 64 bits of a \<^verbatim>\<open>Gwei\<close> as signed.
\<close>

definition big_Uint64 :: "int \<Rightarrow> uint64" where
  "big_Uint64 x = word_of_int \<bar>x\<bar>"

text \<open>
  \<^verbatim>\<open>legacyCalcHealth\<close>. The loop runs over the indices of \<open>before\<close> and reads \<open>after\<close>
  at the same index, which panics when \<open>after\<close> is shorter. \<^verbatim>\<open>(*big.Int).Div\<close> panics on
  a zero divisor, and so does each \<^verbatim>\<open>uint64\<close> division. The integer square root is a
  function of the consensus library (\<^verbatim>\<open>math.IntegerSquareRootPrysm\<close>) and is a
  parameter here.
\<close>

definition legacyCalcHealth ::
  "(uint64 \<Rightarrow> uint64) \<Rightarrow> Spec \<Rightarrow> uint64 list \<Rightarrow> uint64 list \<Rightarrow> float64 ret" where
  "legacyCalcHealth isqrt sp before after =
     (if length after < length before
      then Panic (IndexOutOfRange (length after) (length after))
      else
        let sum_before = sum_list (map sint before);
            sum_after = sum_list (map sint (take (length before) after));
            count = int (length before)
        in if count = 0 then Panic BigDivisionByZero
           else
             let avg_before = big_Uint64 (sum_before div count);
                 avg_after = big_Uint64 (sum_after div count)
             in if isqrt (big_Uint64 sum_before) = 0 then Panic IntegerDivideByZero
                else if HYSTERESIS_QUOTIENT sp = 0 then Panic IntegerDivideByZero
                else
                  let reward = avg_before * BASE_REWARD_FACTOR sp
                                 div isqrt (big_Uint64 sum_before)
                                 div HYSTERESIS_QUOTIENT sp
                  in Ok (fdiv (float64_of_uint64 (avg_after - avg_before))
                              (float64_of_uint64 (reward * BASE_REWARDS_PER_EPOCH))))"

text \<open>
  The fields \<^verbatim>\<open>GetHealth\<close> reads of a validator and of the versioned state:
  \<open>CurrentEpochParticipation\<close> is the registry the state exposes (\<open>None\<close> for Go's nil
  slice), and \<open>phase0_Data\<close> is the validator list when \<^verbatim>\<open>Data\<close> is a phase0 state, so
  that the unchecked type assertion \<^verbatim>\<open>stateInfo.Data.(*phase0.BeaconState)\<close> panics on
  \<open>None\<close>.
\<close>

record Validator =
  ActivationEligibilityEpoch :: Epoch
  ExitEpoch :: Epoch
  Slashed :: bool

record stateInfo =
  state_Version :: string
  CurrentEpochParticipation :: "8 word list option"
  phase0_Data :: "Validator list option"

record BeaconClient =
  BeaconStateV2 :: "Slot \<Rightarrow> error + stateInfo"
  StateValidatorBalances :: "Slot \<Rightarrow> nat list \<Rightarrow> error + uint64 list"

definition active_validator_ids :: "Epoch \<Rightarrow> Validator list \<Rightarrow> nat list" where
  "active_validator_ids epoch validators =
     filter (\<lambda>id. epoch \<ge> ActivationEligibilityEpoch (validators ! id)
                   \<and> epoch < ExitEpoch (validators ! id)
                   \<and> \<not> Slashed (validators ! id))
       [0 ..< length validators]"

definition GetHealth ::
  "(uint64 \<Rightarrow> uint64) \<Rightarrow> BeaconClient \<Rightarrow> Spec \<Rightarrow> Slot \<Rightarrow> float64 ret" where
  "GetHealth isqrt bn sp slot =
     (case BeaconStateV2 bn slot of
        Inl e \<Rightarrow> Err (FailedToRetrieveState e)
      | Inr stateInfo \<Rightarrow>
          (case CurrentEpochParticipation stateInfo of
             Some currentEpochParticipation \<Rightarrow> Ok (calcHealth currentEpochParticipation)
           | None \<Rightarrow>
               if state_Version stateInfo \<noteq> ''phase0'' then Err CalculateParticipation
               else
                 (case phase0_Data stateInfo of
                    None \<Rightarrow> Panic TypeAssertionFailed
                  | Some validators \<Rightarrow>
                      if SLOTS_PER_EPOCH sp = 0 then Panic IntegerDivideByZero
                      else
                        let epoch = SlotToEpoch sp slot;
                            validatorIds = active_validator_ids epoch validators;
                            afterEpoch = SlotToEpoch sp slot;
                            beforeEpoch = (if afterEpoch \<noteq> 0 then SlotToEpoch sp slot - 1 else 0)
                        in (case StateValidatorBalances bn
                                   (beforeEpoch * SLOTS_PER_EPOCH sp) validatorIds of
                              Inl e \<Rightarrow> Err (FailedToRetrieveBalances e)
                            | Inr balancesBefore \<Rightarrow>
                                (case StateValidatorBalances bn
                                        (afterEpoch * SLOTS_PER_EPOCH sp) validatorIds of
                                   Inl e \<Rightarrow> Err (FailedToRetrieveBalances e)
                                 | Inr balancesAfter \<Rightarrow>
                                     legacyCalcHealth isqrt sp balancesBefore balancesAfter)))))"

section \<open>Observations named by the properties\<close>

text \<open>
  The head slot a probe has observed when it reaches its head-lag rule: the probes of
  \<^verbatim>\<open>WaitSlotsWithMaxMissedSlots\<close>, \<^verbatim>\<open>WaitForFork\<close> and \<^verbatim>\<open>WaitForFinality\<close> query the finality
  checkpoints first and leave on a failure, the other probes start with the head block.
\<close>

definition head_slot :: "node_responses \<Rightarrow> Slot option" where
  "head_slot n = (case BlockV2 n of Inl e \<Rightarrow> None | Inr b \<Rightarrow> Some (Slot b))"

definition head_slot_after_checkpoints :: "node_responses \<Rightarrow> Slot option" where
  "head_slot_after_checkpoints n =
     (case BlockFinalityCheckpoints n of Inl e \<Rightarrow> None | Inr c \<Rightarrow> head_slot n)"

text \<open>
  The clock is strictly ahead of the observed head slot, by at least the threshold;
  \<open>uint\<close> reads the slots as the integers they stand for.
\<close>

definition lag_at_least :: "Slot \<Rightarrow> Slot option \<Rightarrow> Slot \<Rightarrow> bool" where
  "lag_at_least clock observed threshold =
     (case observed of
        None \<Rightarrow> False
      | Some s \<Rightarrow> uint s < uint clock \<and> uint threshold \<le> uint clock - uint s)"


section \<open>Example inputs\<close>

definition ex_spec :: Spec where
  "ex_spec = \<lparr>SLOTS_PER_EPOCH = 32, SECONDS_PER_SLOT = 12,
              BASE_REWARD_FACTOR = 64, HYSTERESIS_QUOTIENT = 4\<rparr>"

definition ex_testnet :: Testnet where
  "ex_testnet = \<lparr>spec = ex_spec, genesisTime = 1000, maxConsecutiveErrorsOnWaits = 3,
                 TerminalTotalDifficulty = Some 100\<rparr>"

definition ex_block :: "Slot \<Rightarrow> Root \<Rightarrow> VersionedBlock" where
  "ex_block s rt = \<lparr>Version = ''bellatrix'', Slot = s, Root_of = rt, ExecutionPayload = None\<rparr>"

definition ex_checkpoints :: "Checkpoint \<Rightarrow> FinalityCheckpoints" where
  "ex_checkpoints cp =
     \<lparr>PreviousJustified = empty_Checkpoint, CurrentJustified = empty_Checkpoint, Finalized = cp\<rparr>"

definition ex_node :: "error + FinalityCheckpoints \<Rightarrow> error + VersionedBlock \<Rightarrow> node_responses" where
  "ex_node cps b =
     \<lparr>BlockFinalityCheckpoints = cps, BlockV2 = b,
      BlockV2_by_root = (\<lambda>_. Inl (ClientError ''not found'')),
      TotalDifficultyByNumber = Inl (ClientError ''connection refused''),
      status = ''status''\<rparr>"

text \<open>A tick well after the first slot of \<open>ex_testnet\<close>, with the probes arriving in node order.\<close>

definition ex_tick :: "Slot \<Rightarrow> (node \<Rightarrow> node_responses) \<Rightarrow> tick" where
  "ex_tick c rsp = \<lparr>tim = 2000000000000, clockSlot = c, responses = rsp, arrival = [0, 1, 2]\<rparr>"

text \<open>
  Three nodes at clock slot 83: nodes 0 and 2 report the head root 5 at slot 83, and the
  block query of node 1 fails.
\<close>

definition ex_one_silent :: "node \<Rightarrow> node_responses" where
  "ex_one_silent n =
     (if n = 1 then ex_node (Inr (ex_checkpoints empty_Checkpoint)) (Inl (ClientError ''timeout''))
      else ex_node (Inr (ex_checkpoints empty_Checkpoint)) (Inr (ex_block 83 5)))"

text \<open>
  A result set after the barrier in which every done flag is set and the second slot
  also carries a fatal outcome.
\<close>

definition ex_done_and_fatal :: resultsArr where
  "ex_done_and_fatal =
     \<lparr>slots =
        [\<lparr>msg = ''status'', err = None, fatal = None, done' = True,
          result = CheckpointValue \<lparr>Epoch = 3, Root = 9\<rparr>, errCount = 0\<rparr>,
         \<lparr>msg = [], err = None, fatal = Some (UnableToSync 100 7), done' = True,
          result = NoValue, errCount = 0\<rparr>],
      maxErr = 3\<rparr>"

text \<open>A node whose head block is at slot 0, and one whose head block is at slot 5.\<close>

definition ex_lagging :: node_responses where
  "ex_lagging = ex_node (Inr (ex_checkpoints empty_Checkpoint)) (Inr (ex_block 0 5))"

definition ex_level :: node_responses where
  "ex_level = ex_node (Inr (ex_checkpoints empty_Checkpoint)) (Inr (ex_block 5 5))"

text \<open>
  A node at the clock slot 83 that reports the finalized checkpoint of epoch 3 with
  root 9.
\<close>

definition ex_finalized :: node_responses where
  "ex_finalized = ex_node (Inr (ex_checkpoints \<lparr>Epoch = 3, Root = 9\<rparr>)) (Inr (ex_block 83 5))"

text \<open>
  The lagging node again, with an execution client that reports a total difficulty of
  50, below the terminal total difficulty 100 of \<open>ex_testnet\<close>.
\<close>

definition ex_below_ttd :: node_responses where
  "ex_below_ttd = ex_lagging\<lparr>TotalDifficultyByNumber := Inr 50\<rparr>"

text \<open>
  A beacon client that serves one state at every slot: a post-Altair state with a given
  participation registry, or a phase0 state with one active validator whose balance is
  32 000 000 000 Gwei at slot 32 and 31 000 000 000 Gwei at the other slots.
\<close>

definition ex_altair_state :: "8 word list \<Rightarrow> stateInfo" where
  "ex_altair_state p =
     \<lparr>state_Version = ''altair'', CurrentEpochParticipation = Some p, phase0_Data = None\<rparr>"

definition ex_altair_client :: "8 word list \<Rightarrow> BeaconClient" where
  "ex_altair_client p =
     \<lparr>BeaconStateV2 = (\<lambda>_. Inr (ex_altair_state p)),
      StateValidatorBalances = (\<lambda>_ _. Inl (ClientError ''unavailable''))\<rparr>"

definition ex_phase0_state :: stateInfo where
  "ex_phase0_state =
     \<lparr>state_Version = ''phase0'', CurrentEpochParticipation = None,
      phase0_Data = Some [\<lparr>ActivationEligibilityEpoch = 0, ExitEpoch = 18446744073709551615,
                           Slashed = False\<rparr>]\<rparr>"

definition ex_phase0_client :: BeaconClient where
  "ex_phase0_client =
     \<lparr>BeaconStateV2 = (\<lambda>_. Inr ex_phase0_state),
      StateValidatorBalances =
        (\<lambda>s ids. if s = 32 then Inr (map (\<lambda>_. 32000000000) ids)
                  else Inr (map (\<lambda>_. 31000000000) ids))\<rparr>"

text \<open>
  Two nodes that report the finalized checkpoint of epoch 3 with root 9: the block query
  of the first fails, and the head block of the second is at slot 0.
\<close>

definition ex_finalized_no_block :: node_responses where
  "ex_finalized_no_block =
     ex_node (Inr (ex_checkpoints \<lparr>Epoch = 3, Root = 9\<rparr>)) (Inl (ClientError ''timeout''))"


text \<open>
  The example testnet with a budget of one consecutive error, and a tick on which node 0
  is up to date, node 1 lags by 100 slots and the block query of node 2 fails.
\<close>

definition ex_strict_testnet :: Testnet where
  "ex_strict_testnet = ex_testnet\<lparr>maxConsecutiveErrorsOnWaits := 1\<rparr>"

definition ex_mixed :: "node \<Rightarrow> node_responses" where
  "ex_mixed n =
     (if n = 1 then ex_lagging else if n = 2 then ex_finalized_no_block else ex_finalized)"

section \<open>Slot-clock theorems\<close>

lemma sint_of_nat_small:
  assumes "n < 2 ^ 63"
  shows "sint (of_nat n :: 64 word) = int n"
proof -
  have "int n < 2 ^ 63" using assms by (metis of_nat_less_iff of_nat_numeral of_nat_power)
  then have stb: "signed_take_bit 63 (int n) = int n"
    by (intro signed_take_bit_int_eq_self) auto
  have "sint (word_of_int (int n) :: 64 word) = signed_take_bit (LENGTH(64) - 1) (int n)"
    by (rule sint_sbintrunc')
  also have "\<dots> = int n" using stb by simp
  finally show ?thesis by (simp only: of_int_of_nat_eq)
qed

lemma nanoseconds_of_seconds:
  assumes "fits_Duration secs"
  shows "nanoseconds (of_nat secs * Second) = int secs * 1000000000"
proof -
  have "(of_nat secs * Second :: 64 word) = of_nat (secs * 1000000000)"
    by (simp add: Second_def)
  then show ?thesis
    using assms sint_of_nat_small [of "secs * 1000000000"]
    by (simp add: nanoseconds_def fits_Duration_def)
qed

lemma EpochTimeoutContext_of_nat:
  "EpochTimeoutContext sp nEpochs =
     of_nat ((unat (SLOTS_PER_EPOCH sp) * unat nEpochs + 2) * unat (SECONDS_PER_SLOT sp)) * Second"
  by (simp add: EpochTimeoutContext_def slotsTolerance_def algebra_simps)

lemma SlotTimeoutContext_of_nat:
  "SlotTimeoutContext sp nSlots =
     of_nat ((unat nSlots + 2) * unat (SECONDS_PER_SLOT sp)) * Second"
  by (simp add: SlotTimeoutContext_def slotsTolerance_def algebra_simps)

lemma EpochsTimeout_of_nat:
  "EpochsTimeout sp nEpochs =
     of_nat (unat (SLOTS_PER_EPOCH sp) * unat nEpochs * unat (SECONDS_PER_SLOT sp)) * Second"
  by (simp add: EpochsTimeout_def)

lemma SlotsTimeout_of_nat:
  "SlotsTimeout sp nSlots = of_nat (unat nSlots * unat (SECONDS_PER_SLOT sp)) * Second"
  by (simp add: SlotsTimeout_def)

text \<open>
  C8. \<^verbatim>\<open>EpochTimeoutContext\<close> passes a timeout of exactly
  \<open>(SLOTS_PER_EPOCH * nEpochs + 2) * SECONDS_PER_SLOT\<close> seconds and \<^verbatim>\<open>SlotTimeoutContext\<close> one of
  exactly \<open>(nSlots + 2) * SECONDS_PER_SLOT\<close> seconds, the tolerance being the fixed 2 nSlots;
  the one-shot timers \<^verbatim>\<open>EpochsTimeout\<close> and \<^verbatim>\<open>SlotsTimeout\<close> wait
  \<open>SLOTS_PER_EPOCH * nEpochs * SECONDS_PER_SLOT\<close> and \<open>nSlots * SECONDS_PER_SLOT\<close> seconds, with
  no tolerance. Each equation is stated for the inputs whose number of seconds a
  \<^verbatim>\<open>time.Duration\<close> can hold. With 2 nEpochs of 32 nSlots of 12 seconds the epoch timeout is
  792 seconds.
\<close>

theorem timeouts_exact:
  fixes sp :: Spec
  defines "spe \<equiv> unat (SLOTS_PER_EPOCH sp)" and "sps \<equiv> unat (SECONDS_PER_SLOT sp)"
  shows "(fits_Duration ((spe * unat nEpochs + 2) * sps) \<longrightarrow>
            nanoseconds (EpochTimeoutContext sp nEpochs)
              = int ((spe * unat nEpochs + 2) * sps) * 1000000000)
       \<and> (fits_Duration ((unat nSlots + 2) * sps) \<longrightarrow>
            nanoseconds (SlotTimeoutContext sp nSlots)
              = int ((unat nSlots + 2) * sps) * 1000000000)
       \<and> (fits_Duration (spe * unat nEpochs * sps) \<longrightarrow>
            nanoseconds (EpochsTimeout sp nEpochs)
              = int (spe * unat nEpochs * sps) * 1000000000)
       \<and> (fits_Duration (unat nSlots * sps) \<longrightarrow>
            nanoseconds (SlotsTimeout sp nSlots)
              = int (unat nSlots * sps) * 1000000000)
       \<and> nanoseconds (EpochTimeoutContext
            \<lparr>SLOTS_PER_EPOCH = 32, SECONDS_PER_SLOT = 12,
             BASE_REWARD_FACTOR = 64, HYSTERESIS_QUOTIENT = 4\<rparr> 2) = 792 * 1000000000"
proof (intro conjI impI)
  show "nanoseconds (EpochTimeoutContext
          \<lparr>SLOTS_PER_EPOCH = 32, SECONDS_PER_SLOT = 12,
           BASE_REWARD_FACTOR = 64, HYSTERESIS_QUOTIENT = 4\<rparr> 2) = 792 * 1000000000"
    by (simp add: EpochTimeoutContext_def slotsTolerance_def Second_def nanoseconds_def)
qed (simp_all only: spe_def sps_def EpochTimeoutContext_of_nat SlotTimeoutContext_of_nat
       EpochsTimeout_of_nat SlotsTimeout_of_nat nanoseconds_of_seconds)

theorem timeouts_exact_witness:
  "fits_Duration ((32 * 2 + 2) * 12) \<and> fits_Duration ((5 + 2) * 12)
   \<and> fits_Duration (32 * 2 * 12) \<and> fits_Duration (5 * 12)
   \<and> nanoseconds (EpochTimeoutContext
        \<lparr>SLOTS_PER_EPOCH = 32, SECONDS_PER_SLOT = 12,
         BASE_REWARD_FACTOR = 64, HYSTERESIS_QUOTIENT = 4\<rparr> 2) = 792000000000
   \<and> nanoseconds (SlotTimeoutContext
        \<lparr>SLOTS_PER_EPOCH = 32, SECONDS_PER_SLOT = 12,
         BASE_REWARD_FACTOR = 64, HYSTERESIS_QUOTIENT = 4\<rparr> 5) = 84000000000
   \<and> nanoseconds (EpochsTimeout
        \<lparr>SLOTS_PER_EPOCH = 32, SECONDS_PER_SLOT = 12,
         BASE_REWARD_FACTOR = 64, HYSTERESIS_QUOTIENT = 4\<rparr> 2) = 768000000000
   \<and> nanoseconds (SlotsTimeout
        \<lparr>SLOTS_PER_EPOCH = 32, SECONDS_PER_SLOT = 12,
         BASE_REWARD_FACTOR = 64, HYSTERESIS_QUOTIENT = 4\<rparr> 5) = 60000000000"
  using timeouts_exact [of "\<lparr>SLOTS_PER_EPOCH = 32, SECONDS_PER_SLOT = 12,
         BASE_REWARD_FACTOR = 64, HYSTERESIS_QUOTIENT = 4\<rparr>" 2 5]
  by (simp add: fits_Duration_def)

section \<open>The result set and the order of checks after the barrier\<close>

lemma ex_not_before: "\<not> before_first_slot ex_testnet (ex_tick c rsp)"
  by (simp add: before_first_slot_def ex_testnet_def ex_tick_def GenesisTimeUnix_def
        slotDuration_def nanoseconds_def ex_spec_def Second_def)

lemma ex_strict_not_before: "\<not> before_first_slot ex_strict_testnet (ex_tick c rsp)"
  by (simp add: before_first_slot_def ex_strict_testnet_def ex_testnet_def ex_tick_def
        GenesisTimeUnix_def slotDuration_def nanoseconds_def ex_spec_def Second_def)

lemma first_fatal_mem:
  "first_fatal xs = Some e \<Longrightarrow> \<exists>r\<in>set xs. fatal r = Some e"
  by (induction xs) (auto split: option.splits)

lemma first_fatal_exists:
  "r \<in> set xs \<Longrightarrow> fatal r \<noteq> None \<Longrightarrow> \<exists>e. first_fatal xs = Some e"
  by (induction xs) (auto split: option.splits)

lemma CheckError_fatal:
  "first_fatal (slots rs) = Some e \<Longrightarrow> CheckError rs = Some e"
  by (simp add: CheckError_def)

text \<open>
  After the barrier the error check comes first: a result set with a fatal slot makes
  every variant's step return the fatal error of the first such slot, whatever the done
  flags, the slot counter or the collected heads are.
\<close>

lemma fatal_first_after:
  assumes "r \<in> set (slots rs)" and "fatal r \<noteq> None"
  shows "\<exists>e. first_fatal (slots rs) = Some e
           \<and> (\<exists>r'\<in>set (slots rs). fatal r' = Some e)
           \<and> CheckError rs = Some e
           \<and> fst (WaitSlotsWithMaxMissedSlots_after nSlots rs slotsPassed) = Some (Err e)
           \<and> WaitForFork_after rs = Some (Err e)
           \<and> WaitForFinality_after rs = Some (Err e)
           \<and> WaitForSync_after rs heads = Some (Err e)
           \<and> WaitForExecutionFinality_after rs = Some (Err e)
           \<and> WaitForCurrentEpochFinalization_after rs = Some (Err e)
           \<and> WaitForExecutionPayload_after rs = Some (Err e)"
proof -
  from assms obtain e where e: "first_fatal (slots rs) = Some e"
    using first_fatal_exists by blast
  then have c: "CheckError rs = Some e" by (rule CheckError_fatal)
  from e have m: "\<exists>r'\<in>set (slots rs). fatal r' = Some e" by (rule first_fatal_mem)
  show ?thesis
    using e c m
    by (intro exI [of _ e])
       (simp add: WaitSlotsWithMaxMissedSlots_after_def WaitForFork_after_def
          WaitForFinality_after_def WaitForSync_after_def WaitForExecutionFinality_after_def
          WaitForCurrentEpochFinalization_after_def WaitForExecutionPayload_after_def)
qed

text \<open>
  The loop: once the events \<open>pre\<close> have been consumed without a return, the call goes on
  from the state they left, and it returns on the first tick whose body returns.
\<close>

lemma wait_loop_append:
  "loop_state body s pre = Some s' \<Longrightarrow> wait_loop body s (pre @ evs) = wait_loop body s' evs"
proof (induction pre arbitrary: s)
  case Nil
  then show ?case by simp
next
  case (Cons ev pre)
  show ?case
  proof (cases ev)
    case (CtxDone e)
    with Cons.prems show ?thesis by simp
  next
    case (TimerTick tk)
    obtain out s1 where b: "body s tk = (out, s1)" by (cases "body s tk")
    show ?thesis
    proof (cases out)
      case None
      with Cons.prems TimerTick b have "loop_state body s1 pre = Some s'" by simp
      then have "wait_loop body s1 (pre @ evs) = wait_loop body s' evs" by (rule Cons.IH)
      with None TimerTick b show ?thesis by simp
    next
      case (Some r)
      with Cons.prems TimerTick b show ?thesis by simp
    qed
  qed
qed

lemma wait_loop_returns:
  assumes "loop_state body s pre = Some s'" and "fst (body s' tk) = Some out"
  shows "wait_loop body s (pre @ TimerTick tk # evs) = Some out"
proof -
  obtain s2 where "body s' tk = (Some out, s2)" using assms(2) by (cases "body s' tk") auto
  then have "wait_loop body s' (TimerTick tk # evs) = Some out" by simp
  with wait_loop_append [OF assms(1)] show ?thesis by simp
qed

text \<open>Each loop body returns the error that \<open>CheckError\<close> finds after its probes.\<close>

lemma WaitSlotsWithMaxMissedSlots_tick_error:
  assumes "\<not> before_first_slot t tk"
    and "CheckError (probe_all (WaitSlotsWithMaxMissedSlots_probe m (clockSlot tk)) tk ns rs) = Some e"
  shows "fst (WaitSlotsWithMaxMissedSlots_tick t ns nSlots m (rs, slotsPassed) tk) = Some (Err e)"
  using assms
  by (simp add: WaitSlotsWithMaxMissedSlots_tick_def WaitSlotsWithMaxMissedSlots_after_def Let_def)

lemma WaitForFork_tick_error:
  assumes "\<not> before_first_slot t tk"
    and "CheckError (probe_all (WaitForFork_probe t fork (clockSlot tk)) tk ns rs) = Some e"
  shows "fst (WaitForFork_tick t ns fork rs tk) = Some (Err e)"
  using assms by (simp add: WaitForFork_tick_def WaitForFork_after_def Let_def)

lemma WaitForFinality_tick_error:
  assumes "\<not> before_first_slot t tk"
    and "CheckError (probe_all (WaitForFinality_probe t (clockSlot tk)) tk ns rs) = Some e"
  shows "fst (WaitForFinality_tick t ns rs tk) = Some (Err e)"
  using assms by (simp add: WaitForFinality_tick_def WaitForFinality_after_def Let_def)

lemma WaitForSync_tick_error:
  assumes "\<not> before_first_slot t tk"
    and "CheckError (probe_all WaitForSync_probe tk ns rs) = Some e"
  shows "fst (WaitForSync_tick t ns rs tk) = Some (Err e)"
  using assms by (simp add: WaitForSync_tick_def WaitForSync_after_def Let_def)

lemma WaitForExecutionFinality_tick_error:
  assumes "\<not> before_first_slot t tk"
    and "CheckError (probe_all (WaitForExecutionFinality_probe t (clockSlot tk)) tk ns rs) = Some e"
  shows "fst (WaitForExecutionFinality_tick t ns rs tk) = Some (Err e)"
  using assms
  by (simp add: WaitForExecutionFinality_tick_def WaitForExecutionFinality_after_def Let_def)

lemma WaitForCurrentEpochFinalization_tick_error:
  assumes "\<not> before_first_slot t tk"
    and "CheckError (probe_all (WaitForCurrentEpochFinalization_probe t ep (clockSlot tk))
           tk ns rs) = Some e"
  shows "fst (WaitForCurrentEpochFinalization_tick t ns ep rs tk) = Some (Err e)"
  using assms
  by (simp add: WaitForCurrentEpochFinalization_tick_def
        WaitForCurrentEpochFinalization_after_def Let_def)

lemma WaitForExecutionPayload_tick_error:
  assumes "\<not> before_first_slot t tk"
    and "ttd_gate t (responses tk ec) ttdReached = Proceed b"
    and "CheckError (probe_all (WaitForExecutionPayload_probe t (clockSlot tk)) tk ns rs) = Some e"
  shows "fst (WaitForExecutionPayload_tick t ns ec (rs, ttdReached) tk) = Some (Err e)"
  using assms
  by (simp add: WaitForExecutionPayload_tick_def WaitForExecutionPayload_after_def Let_def)

lemma fatal_slot_CheckError:
  assumes "r \<in> set (slots rs)" and "fatal r \<noteq> None"
  shows "\<exists>e. first_fatal (slots rs) = Some e \<and> CheckError rs = Some e"
  using assms first_fatal_exists CheckError_fatal by blast

text \<open>
  C1. Take any tick of a wait call after the first slot, reached after the events
  \<open>pre\<close> without a return. In \<^verbatim>\<open>WaitSlotsWithMaxMissedSlots\<close>, \<^verbatim>\<open>WaitForFork\<close>,
  \<^verbatim>\<open>WaitForFinality\<close>, \<^verbatim>\<open>WaitForExecutionFinality\<close>, \<^verbatim>\<open>WaitForCurrentEpochFinalization\<close> and
  \<^verbatim>\<open>WaitForExecutionPayload\<close> (on a tick that passes its gate), if the probe of some node
  records a fatal outcome on this tick, then the loop body returns the fatal error of the
  first such node and the call returns that error on this tick, not success. The probe
  of \<^verbatim>\<open>WaitForSync\<close> records no fatal outcome; there the same holds for the error that
  \<open>CheckError\<close> finds, whatever heads were collected. The last part is the order of
  the checks by itself: on any result set with a fatal slot, the step after the barrier
  returns that error in every variant even when every done flag is set.
\<close>

theorem fatal_wins:
  assumes "\<not> before_first_slot t tk"
  shows
    "(loop_state (WaitSlotsWithMaxMissedSlots_tick t ns nSlots m)
        (makeResults ns (maxConsecutiveErrorsOnWaits t), 0) pre = Some (rs, slotsPassed)
      \<and> r \<in> set (slots (probe_all (WaitSlotsWithMaxMissedSlots_probe m (clockSlot tk)) tk ns rs))
      \<and> fatal r \<noteq> None \<longrightarrow>
      (\<exists>e. first_fatal (slots (probe_all (WaitSlotsWithMaxMissedSlots_probe m (clockSlot tk))
                                  tk ns rs)) = Some e
         \<and> fst (WaitSlotsWithMaxMissedSlots_tick t ns nSlots m (rs, slotsPassed) tk)
             = Some (Err e)
         \<and> WaitSlotsWithMaxMissedSlots t ns nSlots m (pre @ TimerTick tk # evs)
             = Some (Err e)))
   \<and> (loop_state (WaitForFork_tick t ns fork)
        (makeResults ns (maxConsecutiveErrorsOnWaits t)) pre = Some rs
      \<and> r \<in> set (slots (probe_all (WaitForFork_probe t fork (clockSlot tk)) tk ns rs))
      \<and> fatal r \<noteq> None \<longrightarrow>
      (\<exists>e. first_fatal (slots (probe_all (WaitForFork_probe t fork (clockSlot tk)) tk ns rs))
              = Some e
         \<and> fst (WaitForFork_tick t ns fork rs tk) = Some (Err e)
         \<and> WaitForFork t ns fork (pre @ TimerTick tk # evs) = Some (Err e)))
   \<and> (loop_state (WaitForFinality_tick t ns)
        (makeResults ns (maxConsecutiveErrorsOnWaits t)) pre = Some rs
      \<and> r \<in> set (slots (probe_all (WaitForFinality_probe t (clockSlot tk)) tk ns rs))
      \<and> fatal r \<noteq> None \<longrightarrow>
      (\<exists>e. first_fatal (slots (probe_all (WaitForFinality_probe t (clockSlot tk)) tk ns rs))
              = Some e
         \<and> fst (WaitForFinality_tick t ns rs tk) = Some (Err e)
         \<and> WaitForFinality t ns (pre @ TimerTick tk # evs) = Some (Err e)))
   \<and> (loop_state (WaitForExecutionFinality_tick t ns)
        (makeResults ns (maxConsecutiveErrorsOnWaits t)) pre = Some rs
      \<and> r \<in> set (slots (probe_all (WaitForExecutionFinality_probe t (clockSlot tk)) tk ns rs))
      \<and> fatal r \<noteq> None \<longrightarrow>
      (\<exists>e. first_fatal (slots (probe_all (WaitForExecutionFinality_probe t (clockSlot tk))
                                  tk ns rs)) = Some e
         \<and> fst (WaitForExecutionFinality_tick t ns rs tk) = Some (Err e)
         \<and> WaitForExecutionFinality t ns (pre @ TimerTick tk # evs) = Some (Err e)))
   \<and> (SLOTS_PER_EPOCH (spec t) \<noteq> 0
      \<and> loop_state (WaitForCurrentEpochFinalization_tick t ns (SlotToEpoch (spec t) startSlot))
        (makeResults ns (maxConsecutiveErrorsOnWaits t)) pre = Some rs
      \<and> r \<in> set (slots (probe_all (WaitForCurrentEpochFinalization_probe t
                                     (SlotToEpoch (spec t) startSlot) (clockSlot tk)) tk ns rs))
      \<and> fatal r \<noteq> None \<longrightarrow>
      (\<exists>e. first_fatal (slots (probe_all (WaitForCurrentEpochFinalization_probe t
                                  (SlotToEpoch (spec t) startSlot) (clockSlot tk)) tk ns rs))
              = Some e
         \<and> fst (WaitForCurrentEpochFinalization_tick t ns (SlotToEpoch (spec t) startSlot) rs tk)
             = Some (Err e)
         \<and> WaitForCurrentEpochFinalization t ns startSlot (pre @ TimerTick tk # evs)
             = Some (Err e)))
   \<and> (ns = ec # ns'
      \<and> loop_state (WaitForExecutionPayload_tick t ns ec)
        (makeResults ns (maxConsecutiveErrorsOnWaits t), False) pre = Some (rs, ttdReached)
      \<and> ttd_gate t (responses tk ec) ttdReached = Proceed b
      \<and> r \<in> set (slots (probe_all (WaitForExecutionPayload_probe t (clockSlot tk)) tk ns rs))
      \<and> fatal r \<noteq> None \<longrightarrow>
      (\<exists>e. first_fatal (slots (probe_all (WaitForExecutionPayload_probe t (clockSlot tk))
                                  tk ns rs)) = Some e
         \<and> fst (WaitForExecutionPayload_tick t ns ec (rs, ttdReached) tk) = Some (Err e)
         \<and> WaitForExecutionPayload t ns (pre @ TimerTick tk # evs) = Some (Err e)))
   \<and> (loop_state (WaitForSync_tick t ns)
        (makeResults ns (maxConsecutiveErrorsOnWaits t)) pre = Some rs
      \<and> CheckError (probe_all WaitForSync_probe tk ns rs) = Some e' \<longrightarrow>
      fst (WaitForSync_tick t ns rs tk) = Some (Err e')
      \<and> WaitForSync t ns (pre @ TimerTick tk # evs) = Some (Err e'))
   \<and> (r \<in> set (slots rs) \<and> fatal r \<noteq> None \<longrightarrow>
      (\<exists>e. first_fatal (slots rs) = Some e
         \<and> fst (WaitSlotsWithMaxMissedSlots_after nSlots rs slotsPassed) = Some (Err e)
         \<and> WaitForFork_after rs = Some (Err e)
         \<and> WaitForFinality_after rs = Some (Err e)
         \<and> WaitForSync_after rs heads = Some (Err e)
         \<and> WaitForExecutionFinality_after rs = Some (Err e)
         \<and> WaitForCurrentEpochFinalization_after rs = Some (Err e)
         \<and> WaitForExecutionPayload_after rs = Some (Err e)))"
proof (intro conjI impI)
  assume a: "loop_state (WaitSlotsWithMaxMissedSlots_tick t ns nSlots m)
        (makeResults ns (maxConsecutiveErrorsOnWaits t), 0) pre = Some (rs, slotsPassed)
      \<and> r \<in> set (slots (probe_all (WaitSlotsWithMaxMissedSlots_probe m (clockSlot tk)) tk ns rs))
      \<and> fatal r \<noteq> None"
  then obtain e where e: "first_fatal (slots (probe_all (WaitSlotsWithMaxMissedSlots_probe m
      (clockSlot tk)) tk ns rs)) = Some e"
    and c: "CheckError (probe_all (WaitSlotsWithMaxMissedSlots_probe m (clockSlot tk)) tk ns rs)
      = Some e"
    using fatal_slot_CheckError by blast
  have tk: "fst (WaitSlotsWithMaxMissedSlots_tick t ns nSlots m (rs, slotsPassed) tk)
      = Some (Err e)"
    using assms c by (rule WaitSlotsWithMaxMissedSlots_tick_error)
  have "WaitSlotsWithMaxMissedSlots t ns nSlots m (pre @ TimerTick tk # evs) = Some (Err e)"
    unfolding WaitSlotsWithMaxMissedSlots_def using a tk by (intro wait_loop_returns) auto
  with e tk show "\<exists>e. first_fatal (slots (probe_all (WaitSlotsWithMaxMissedSlots_probe m
        (clockSlot tk)) tk ns rs)) = Some e
      \<and> fst (WaitSlotsWithMaxMissedSlots_tick t ns nSlots m (rs, slotsPassed) tk) = Some (Err e)
      \<and> WaitSlotsWithMaxMissedSlots t ns nSlots m (pre @ TimerTick tk # evs) = Some (Err e)"
    by blast
next
  assume a: "loop_state (WaitForFork_tick t ns fork)
        (makeResults ns (maxConsecutiveErrorsOnWaits t)) pre = Some rs
      \<and> r \<in> set (slots (probe_all (WaitForFork_probe t fork (clockSlot tk)) tk ns rs))
      \<and> fatal r \<noteq> None"
  then obtain e where e: "first_fatal (slots (probe_all (WaitForFork_probe t fork (clockSlot tk))
      tk ns rs)) = Some e"
    and c: "CheckError (probe_all (WaitForFork_probe t fork (clockSlot tk)) tk ns rs) = Some e"
    using fatal_slot_CheckError by blast
  have tk: "fst (WaitForFork_tick t ns fork rs tk) = Some (Err e)"
    using assms c by (rule WaitForFork_tick_error)
  have "WaitForFork t ns fork (pre @ TimerTick tk # evs) = Some (Err e)"
    unfolding WaitForFork_def using a tk by (intro wait_loop_returns) auto
  with e tk show "\<exists>e. first_fatal (slots (probe_all (WaitForFork_probe t fork (clockSlot tk))
        tk ns rs)) = Some e
      \<and> fst (WaitForFork_tick t ns fork rs tk) = Some (Err e)
      \<and> WaitForFork t ns fork (pre @ TimerTick tk # evs) = Some (Err e)"
    by blast
next
  assume a: "loop_state (WaitForFinality_tick t ns)
        (makeResults ns (maxConsecutiveErrorsOnWaits t)) pre = Some rs
      \<and> r \<in> set (slots (probe_all (WaitForFinality_probe t (clockSlot tk)) tk ns rs))
      \<and> fatal r \<noteq> None"
  then obtain e where e: "first_fatal (slots (probe_all (WaitForFinality_probe t (clockSlot tk))
      tk ns rs)) = Some e"
    and c: "CheckError (probe_all (WaitForFinality_probe t (clockSlot tk)) tk ns rs) = Some e"
    using fatal_slot_CheckError by blast
  have tk: "fst (WaitForFinality_tick t ns rs tk) = Some (Err e)"
    using assms c by (rule WaitForFinality_tick_error)
  have "WaitForFinality t ns (pre @ TimerTick tk # evs) = Some (Err e)"
    unfolding WaitForFinality_def using a tk by (intro wait_loop_returns) auto
  with e tk show "\<exists>e. first_fatal (slots (probe_all (WaitForFinality_probe t (clockSlot tk))
        tk ns rs)) = Some e
      \<and> fst (WaitForFinality_tick t ns rs tk) = Some (Err e)
      \<and> WaitForFinality t ns (pre @ TimerTick tk # evs) = Some (Err e)"
    by blast
next
  assume a: "loop_state (WaitForExecutionFinality_tick t ns)
        (makeResults ns (maxConsecutiveErrorsOnWaits t)) pre = Some rs
      \<and> r \<in> set (slots (probe_all (WaitForExecutionFinality_probe t (clockSlot tk)) tk ns rs))
      \<and> fatal r \<noteq> None"
  then obtain e where e: "first_fatal (slots (probe_all (WaitForExecutionFinality_probe t
      (clockSlot tk)) tk ns rs)) = Some e"
    and c: "CheckError (probe_all (WaitForExecutionFinality_probe t (clockSlot tk)) tk ns rs)
      = Some e"
    using fatal_slot_CheckError by blast
  have tk: "fst (WaitForExecutionFinality_tick t ns rs tk) = Some (Err e)"
    using assms c by (rule WaitForExecutionFinality_tick_error)
  have "WaitForExecutionFinality t ns (pre @ TimerTick tk # evs) = Some (Err e)"
    unfolding WaitForExecutionFinality_def using a tk by (intro wait_loop_returns) auto
  with e tk show "\<exists>e. first_fatal (slots (probe_all (WaitForExecutionFinality_probe t
        (clockSlot tk)) tk ns rs)) = Some e
      \<and> fst (WaitForExecutionFinality_tick t ns rs tk) = Some (Err e)
      \<and> WaitForExecutionFinality t ns (pre @ TimerTick tk # evs) = Some (Err e)"
    by blast
next
  let ?ep = "SlotToEpoch (spec t) startSlot"
  assume a: "SLOTS_PER_EPOCH (spec t) \<noteq> 0
      \<and> loop_state (WaitForCurrentEpochFinalization_tick t ns ?ep)
        (makeResults ns (maxConsecutiveErrorsOnWaits t)) pre = Some rs
      \<and> r \<in> set (slots (probe_all (WaitForCurrentEpochFinalization_probe t ?ep (clockSlot tk))
                         tk ns rs))
      \<and> fatal r \<noteq> None"
  then obtain e where e: "first_fatal (slots (probe_all (WaitForCurrentEpochFinalization_probe t
      ?ep (clockSlot tk)) tk ns rs)) = Some e"
    and c: "CheckError (probe_all (WaitForCurrentEpochFinalization_probe t ?ep (clockSlot tk))
      tk ns rs) = Some e"
    using fatal_slot_CheckError by blast
  have tk: "fst (WaitForCurrentEpochFinalization_tick t ns ?ep rs tk) = Some (Err e)"
    using assms c by (rule WaitForCurrentEpochFinalization_tick_error)
  have "wait_loop (WaitForCurrentEpochFinalization_tick t ns ?ep)
          (makeResults ns (maxConsecutiveErrorsOnWaits t)) (pre @ TimerTick tk # evs)
        = Some (Err e)"
    using a tk by (intro wait_loop_returns) auto
  then have "WaitForCurrentEpochFinalization t ns startSlot (pre @ TimerTick tk # evs)
      = Some (Err e)"
    using a by (simp add: WaitForCurrentEpochFinalization_def)
  with e tk show "\<exists>e. first_fatal (slots (probe_all (WaitForCurrentEpochFinalization_probe t
        ?ep (clockSlot tk)) tk ns rs)) = Some e
      \<and> fst (WaitForCurrentEpochFinalization_tick t ns ?ep rs tk) = Some (Err e)
      \<and> WaitForCurrentEpochFinalization t ns startSlot (pre @ TimerTick tk # evs)
          = Some (Err e)"
    by blast
next
  assume a: "ns = ec # ns'
      \<and> loop_state (WaitForExecutionPayload_tick t ns ec)
        (makeResults ns (maxConsecutiveErrorsOnWaits t), False) pre = Some (rs, ttdReached)
      \<and> ttd_gate t (responses tk ec) ttdReached = Proceed b
      \<and> r \<in> set (slots (probe_all (WaitForExecutionPayload_probe t (clockSlot tk)) tk ns rs))
      \<and> fatal r \<noteq> None"
  then obtain e where e: "first_fatal (slots (probe_all (WaitForExecutionPayload_probe t
      (clockSlot tk)) tk ns rs)) = Some e"
    and c: "CheckError (probe_all (WaitForExecutionPayload_probe t (clockSlot tk)) tk ns rs)
      = Some e"
    using fatal_slot_CheckError by blast
  from a have g: "ttd_gate t (responses tk ec) ttdReached = Proceed b" by simp
  have tk: "fst (WaitForExecutionPayload_tick t ns ec (rs, ttdReached) tk) = Some (Err e)"
    using assms g c by (rule WaitForExecutionPayload_tick_error)
  have "wait_loop (WaitForExecutionPayload_tick t ns ec)
          (makeResults ns (maxConsecutiveErrorsOnWaits t), False) (pre @ TimerTick tk # evs)
        = Some (Err e)"
    using a tk by (intro wait_loop_returns) auto
  then have "WaitForExecutionPayload t ns (pre @ TimerTick tk # evs) = Some (Err e)"
    using a by (simp add: WaitForExecutionPayload_def)
  with e tk show "\<exists>e. first_fatal (slots (probe_all (WaitForExecutionPayload_probe t
        (clockSlot tk)) tk ns rs)) = Some e
      \<and> fst (WaitForExecutionPayload_tick t ns ec (rs, ttdReached) tk) = Some (Err e)
      \<and> WaitForExecutionPayload t ns (pre @ TimerTick tk # evs) = Some (Err e)"
    by blast
next
  assume a: "loop_state (WaitForSync_tick t ns)
        (makeResults ns (maxConsecutiveErrorsOnWaits t)) pre = Some rs
      \<and> CheckError (probe_all WaitForSync_probe tk ns rs) = Some e'"
  then have c: "CheckError (probe_all WaitForSync_probe tk ns rs) = Some e'" by simp
  show tk: "fst (WaitForSync_tick t ns rs tk) = Some (Err e')"
    using assms c by (rule WaitForSync_tick_error)
  show "WaitForSync t ns (pre @ TimerTick tk # evs) = Some (Err e')"
    unfolding WaitForSync_def using a tk by (intro wait_loop_returns) auto
next
  assume "r \<in> set (slots rs) \<and> fatal r \<noteq> None"
  then have "r \<in> set (slots rs)" and "fatal r \<noteq> None" by simp_all
  from fatal_first_after [OF this, of nSlots slotsPassed heads]
  show "\<exists>e. first_fatal (slots rs) = Some e
         \<and> fst (WaitSlotsWithMaxMissedSlots_after nSlots rs slotsPassed) = Some (Err e)
         \<and> WaitForFork_after rs = Some (Err e)
         \<and> WaitForFinality_after rs = Some (Err e)
         \<and> WaitForSync_after rs heads = Some (Err e)
         \<and> WaitForExecutionFinality_after rs = Some (Err e)
         \<and> WaitForCurrentEpochFinalization_after rs = Some (Err e)
         \<and> WaitForExecutionPayload_after rs = Some (Err e)"
    by blast
qed

theorem fatal_wins_witness:
  "\<not> before_first_slot ex_strict_testnet (ex_tick 100 ex_mixed)
   \<and> WaitSlotsWithMaxMissedSlots ex_strict_testnet [0, 1, 2] 5 32 [TimerTick (ex_tick 100 ex_mixed)]
       = Some (Err (MissedSlots 32 100 0))
   \<and> WaitForFork ex_strict_testnet [0, 1, 2] ''bellatrix'' [TimerTick (ex_tick 100 ex_mixed)]
       = Some (Err (UnableToSync 100 0))
   \<and> WaitForFinality ex_strict_testnet [0, 1, 2] [TimerTick (ex_tick 100 ex_mixed)]
       = Some (Err (UnableToSync 100 0))
   \<and> WaitForExecutionFinality ex_strict_testnet [0, 1, 2] [TimerTick (ex_tick 100 ex_mixed)]
       = Some (Err (UnableToSync 100 0))
   \<and> WaitForCurrentEpochFinalization ex_strict_testnet [0, 1, 2] 70
        [TimerTick (ex_tick 100 ex_mixed)]
       = Some (Err (UnableToSync 100 0))
   \<and> WaitForExecutionPayload ex_strict_testnet [0, 1, 2] [TimerTick (ex_tick 100 ex_mixed)]
       = Some (Err (UnableToSync 100 0))
   \<and> WaitForSync ex_strict_testnet [0, 1, 2] [TimerTick (ex_tick 100 ex_mixed)]
       = Some (Err (NodeUnresponsive 2))
   \<and> AllDone ex_done_and_fatal
   \<and> WaitForFinality_after ex_done_and_fatal = Some (Err (UnableToSync 100 7))"
  using
    fatal_wins [OF ex_strict_not_before [of 100 ex_mixed], where ns = "[0, 1, 2]" and pre = "[]"
      and rs = "makeResults [0, 1, 2] 1" and slotsPassed = 0 and nSlots = 5 and m = 32
      and fork = "''bellatrix''" and startSlot = 70 and ec = 0 and ns' = "[1, 2]"
      and ttdReached = False and b = False and e' = "NodeUnresponsive 2" and evs = "[]"
      and r = "\<lparr>msg = [], err = None, fatal = Some (MissedSlots 32 100 0), done' = False,
                result = NoValue, errCount = 0\<rparr>"]
    fatal_wins [OF ex_strict_not_before [of 100 ex_mixed], where ns = "[0, 1, 2]" and pre = "[]"
      and rs = "makeResults [0, 1, 2] 1" and slotsPassed = 0 and nSlots = 5 and m = 32
      and fork = "''bellatrix''" and startSlot = 70 and ec = 0 and ns' = "[1, 2]"
      and ttdReached = False and b = False and e' = "NodeUnresponsive 2" and evs = "[]"
      and r = "\<lparr>msg = [], err = None, fatal = Some (UnableToSync 100 0), done' = False,
                result = NoValue, errCount = 0\<rparr>"]
    fatal_wins [OF ex_strict_not_before [of 100 ex_mixed], where rs = ex_done_and_fatal
      and r = "slots ex_done_and_fatal ! 1"]
    ex_strict_not_before [of 100 ex_mixed]
  by (simp add: ex_strict_testnet_def ex_testnet_def ex_spec_def ex_tick_def ex_mixed_def
        ex_finalized_def ex_lagging_def ex_finalized_no_block_def ex_node_def ex_block_def
        ex_checkpoints_def empty_Checkpoint_def ex_done_and_fatal_def AllDone_def
        makeResults_def fresh_result_def probe_all_def Clear_def clear_result_def Record_def
        CheckError_def SlotToEpoch_def ttd_gate_def
        WaitSlotsWithMaxMissedSlots_probe_def WaitForFork_probe_def WaitForFinality_probe_def
        WaitForSync_probe_def WaitForExecutionFinality_probe_def
        WaitForCurrentEpochFinalization_probe_def WaitForExecutionPayload_probe_def
        WaitSlotsWithMaxMissedSlots_after_def WaitForFork_after_def WaitForFinality_after_def
        WaitForSync_after_def WaitForExecutionFinality_after_def
        WaitForCurrentEpochFinalization_after_def WaitForExecutionPayload_after_def
        WaitSlotsWithMaxMissedSlots_tick_def WaitForFork_tick_def WaitForFinality_tick_def
        WaitForSync_tick_def WaitForExecutionFinality_tick_def
        WaitForCurrentEpochFinalization_tick_def WaitForExecutionPayload_tick_def
        WaitSlotsWithMaxMissedSlots_def WaitForFork_def WaitForFinality_def WaitForSync_def
        WaitForExecutionFinality_def WaitForCurrentEpochFinalization_def
        WaitForExecutionPayload_def)

section \<open>The precondition of \<^verbatim>\<open>WaitForExecutionPayload\<close>\<close>

text \<open>
  C9. \<^verbatim>\<open>WaitForExecutionPayload\<close> indexes the first running node before its loop: with
  no running node the call ends in an index-out-of-range panic, whatever events follow
  (a cancelled context included), and returns no error value.
\<close>

theorem empty_running_nodes_panic:
  "WaitForExecutionPayload t [] evs = Some (Panic (IndexOutOfRange 0 0))"
  by (simp add: WaitForExecutionPayload_def)

section \<open>Head convergence in \<^verbatim>\<open>WaitForSync\<close>\<close>

lemma compare_heads_nonempty:
  "hd0 \<noteq> 0 \<Longrightarrow> compare_heads hd0 hs = (hd0, list_all (\<lambda>h. h = hd0) hs)"
  by (induction hs) (auto simp: EMPTY_TREE_ROOT_def)

lemma compare_heads_zero:
  "compare_heads 0 hs =
     (case dropWhile (\<lambda>h. h = 0) hs of
        [] \<Rightarrow> (0, True)
      | h # rest \<Rightarrow> (h, list_all (\<lambda>x. x = h) rest))"
  by (induction hs) (auto simp: EMPTY_TREE_ROOT_def compare_heads_nonempty)

lemma all_eq_replicate: "list_all (\<lambda>x. x = h) xs \<longleftrightarrow> xs = replicate (length xs) h"
  by (induction xs) auto

lemma dropWhile_zero_replicate:
  fixes R :: Root
  shows "R \<noteq> 0 \<Longrightarrow>
    dropWhile (\<lambda>h. h = 0) (replicate k 0 @ replicate (Suc m) R) = replicate (Suc m) R"
  by (induction k) auto

text \<open>
  What the comparison loop accepts: the heads received, in their order of arrival, are
  some empty roots followed by one or more copies of one non-empty root. Nodes whose
  query failed have sent nothing and are not counted.
\<close>

lemma WaitForSync_after_iff:
  "WaitForSync_after rs heads = Some (Ok R) \<longleftrightarrow>
     CheckError rs = None \<and> R \<noteq> 0
     \<and> (\<exists>k m. heads = replicate k 0 @ replicate (Suc m) R)"
proof (cases "dropWhile (\<lambda>h. h = 0) heads")
  case Nil
  have lhs: "WaitForSync_after rs heads \<noteq> Some (Ok R)"
    unfolding WaitForSync_after_def compare_heads_zero Nil
    by (simp add: EMPTY_TREE_ROOT_def split: option.splits)
  have "\<not> (R \<noteq> 0 \<and> (\<exists>k m. heads = replicate k 0 @ replicate (Suc m) R))"
  proof
    assume "R \<noteq> 0 \<and> (\<exists>k m. heads = replicate k 0 @ replicate (Suc m) R)"
    then obtain k m where R: "R \<noteq> 0" and "heads = replicate k 0 @ replicate (Suc m) R" by blast
    then have "dropWhile (\<lambda>h. h = 0) heads = replicate (Suc m) R"
      using dropWhile_zero_replicate by blast
    with Nil show False by simp
  qed
  with lhs show ?thesis by blast
next
  case (Cons h rest)
  have h0: "h \<noteq> 0" using Cons by (metis (full_types) hd_dropWhile list.sel(1) list.distinct(1))
  have tw: "takeWhile (\<lambda>h. h = 0) heads = replicate (length (takeWhile (\<lambda>h. h = 0) heads)) 0"
    by (metis (mono_tags, lifting) replicate_length_same set_takeWhileD)
  have "heads = takeWhile (\<lambda>h. h = 0) heads @ dropWhile (\<lambda>h. h = 0) heads" by simp
  with tw Cons have heads: "heads = replicate (length (takeWhile (\<lambda>h. h = 0) heads)) 0 @ h # rest"
    by metis
  have lhs: "WaitForSync_after rs heads = Some (Ok R) \<longleftrightarrow>
               CheckError rs = None \<and> h = R \<and> list_all (\<lambda>x. x = h) rest"
    unfolding WaitForSync_after_def compare_heads_zero Cons
    using h0 by (auto simp: EMPTY_TREE_ROOT_def split: option.splits)
  have rhs: "(R \<noteq> 0 \<and> (\<exists>k m. heads = replicate k 0 @ replicate (Suc m) R))
               \<longleftrightarrow> h = R \<and> list_all (\<lambda>x. x = h) rest"
  proof
    assume "R \<noteq> 0 \<and> (\<exists>k m. heads = replicate k 0 @ replicate (Suc m) R)"
    then obtain k m where R: "R \<noteq> 0" and "heads = replicate k 0 @ replicate (Suc m) R" by blast
    then have "dropWhile (\<lambda>h. h = 0) heads = replicate (Suc m) R"
      using dropWhile_zero_replicate by blast
    with Cons have "h # rest = R # replicate m R" by (metis replicate_Suc)
    then have "h = R \<and> rest = replicate m R" by (simp only: list.inject)
    then show "h = R \<and> list_all (\<lambda>x. x = h) rest" by (auto simp: list_all_iff)
  next
    assume a: "h = R \<and> list_all (\<lambda>x. x = h) rest"
    then have hR: "h = R" and la: "list_all (\<lambda>x. x = R) rest" by blast+
    have rr: "rest = replicate (length rest) R"
      using la by (rule all_eq_replicate [THEN iffD1])
    have "h # rest = replicate (Suc (length rest)) R"
      by (simp only: replicate_Suc hR rr [symmetric])
    then have "replicate (length (takeWhile (\<lambda>h. h = 0) heads)) 0 @ h # rest
                 = replicate (length (takeWhile (\<lambda>h. h = 0) heads)) 0
                   @ replicate (Suc (length rest)) R"
      by (rule arg_cong)
    with heads have "heads = replicate (length (takeWhile (\<lambda>h. h = 0) heads)) 0
                   @ replicate (Suc (length rest)) R"
      by (rule trans)
    then have "\<exists>k m. heads = replicate k 0 @ replicate (Suc m) R" by blast
    with hR h0 show "R \<noteq> 0 \<and> (\<exists>k m. heads = replicate k 0 @ replicate (Suc m) R)" by blast
  qed
  from lhs rhs show ?thesis by blast
qed

text \<open>
  C2. The claim is that \<^verbatim>\<open>WaitForSync\<close> returns on a tick only when every running node
  has reported a non-empty head root and all roots agree. On the tick \<open>ex_one_silent\<close>
  the block query of the second of three nodes fails, within the tolerated number of
  consecutive errors, and the other two report the root 5: the call returns that root on
  this tick.
\<close>

theorem WaitForSync_returns_with_silent_node:
  "fst (WaitForSync_tick ex_testnet [0, 1, 2] (makeResults [0, 1, 2] 3) (ex_tick 83 ex_one_silent))
     = Some (Ok 5)"
  using ex_not_before [of 83 ex_one_silent]
  by (simp add: WaitForSync_tick_def probe_all_def Clear_def makeResults_def
        clear_result_def fresh_result_def WaitForSync_probe_def ex_one_silent_def ex_node_def
        ex_checkpoints_def ex_block_def Record_def WaitForSync_after_def CheckError_def
        heads_received_def sent_head_def ex_tick_def List.map_filter_def EMPTY_TREE_ROOT_def
        empty_Checkpoint_def)

section \<open>The head-lag rule\<close>

text \<open>The source's test on words, read on the integers the slots stand for.\<close>

lemma lag_words:
  fixes c s m :: "64 word"
  shows "(c > s \<and> c - s \<ge> m) \<longleftrightarrow> (uint s < uint c \<and> uint m \<le> uint c - uint s)"
proof (cases "s < c")
  case True
  then have "uint s \<le> uint c" by (simp add: word_less_def)
  then have "uint (c - s) = uint c - uint s" by (simp add: uint_sub_lem)
  then show ?thesis using True by (simp add: word_le_def word_less_def)
next
  case False
  then show ?thesis by (simp add: word_less_def)
qed

lemma lag_claim_form:
  assumes "threshold \<noteq> 0"
  shows "lag_at_least clock (Some s) threshold \<longleftrightarrow> uint threshold \<le> uint clock - uint s"
proof -
  have "uint threshold \<noteq> 0" using assms by (simp add: uint_0_iff)
  moreover have "0 \<le> uint threshold" by simp
  ultimately have "0 < uint threshold" by linarith
  then show ?thesis unfolding lag_at_least_def by auto
qed

lemma WaitSlots_fatal:
  "fatal r = None \<Longrightarrow>
     fatal (WaitSlotsWithMaxMissedSlots_probe m c n r) \<noteq> None
       \<longleftrightarrow> lag_at_least c (head_slot_after_checkpoints n) m"
  by (simp add: WaitSlotsWithMaxMissedSlots_probe_def head_slot_after_checkpoints_def
        head_slot_def lag_at_least_def lag_words split: sum.splits)

lemma WaitForFork_fatal:
  "fatal r = None \<Longrightarrow>
     fatal (WaitForFork_probe t fork c n r) \<noteq> None
       \<longleftrightarrow> lag_at_least c (head_slot_after_checkpoints n) (SLOTS_PER_EPOCH (spec t))"
  by (simp add: WaitForFork_probe_def head_slot_after_checkpoints_def
        head_slot_def lag_at_least_def lag_words split: sum.splits)

lemma WaitForFinality_fatal:
  "fatal r = None \<Longrightarrow>
     fatal (WaitForFinality_probe t c n r) \<noteq> None
       \<longleftrightarrow> lag_at_least c (head_slot_after_checkpoints n) (SLOTS_PER_EPOCH (spec t))"
  by (simp add: WaitForFinality_probe_def head_slot_after_checkpoints_def
        head_slot_def lag_at_least_def lag_words split: sum.splits)

lemma WaitForExecutionFinality_fatal:
  "fatal r = None \<Longrightarrow>
     fatal (WaitForExecutionFinality_probe t c n r) \<noteq> None
       \<longleftrightarrow> lag_at_least c (head_slot n) (SLOTS_PER_EPOCH (spec t))"
  by (simp add: WaitForExecutionFinality_probe_def
        head_slot_def lag_at_least_def lag_words split: sum.splits option.splits)

lemma WaitForCurrentEpochFinalization_fatal:
  "fatal r = None \<Longrightarrow>
     fatal (WaitForCurrentEpochFinalization_probe t e c n r) \<noteq> None
       \<longleftrightarrow> lag_at_least c (head_slot n) (SLOTS_PER_EPOCH (spec t))"
  by (simp add: WaitForCurrentEpochFinalization_probe_def
        head_slot_def lag_at_least_def lag_words split: sum.splits option.splits)

lemma WaitForExecutionPayload_fatal:
  "fatal r = None \<Longrightarrow>
     fatal (WaitForExecutionPayload_probe t c n r) \<noteq> None
       \<longleftrightarrow> lag_at_least c (head_slot n) (SLOTS_PER_EPOCH (spec t))"
  by (simp add: WaitForExecutionPayload_probe_def
        head_slot_def lag_at_least_def lag_words split: sum.splits option.splits)

lemma WaitForSync_never_fatal:
  "fatal r = None \<Longrightarrow> fatal (WaitForSync_probe n r) = None"
  by (simp add: WaitForSync_probe_def split: sum.splits)

text \<open>
  C3, as the code has it. A probe that starts from a cleared slot records a fatal
  outcome exactly when it has observed the head slot and the clock slot is strictly
  ahead of it by at least the threshold: \<open>maxMissedSlots\<close> in
  \<^verbatim>\<open>WaitSlotsWithMaxMissedSlots\<close>, \<^verbatim>\<open>SLOTS_PER_EPOCH\<close> in \<^verbatim>\<open>WaitForFork\<close>, \<^verbatim>\<open>WaitForFinality\<close>,
  \<^verbatim>\<open>WaitForExecutionFinality\<close>, \<^verbatim>\<open>WaitForCurrentEpochFinalization\<close> and
  \<^verbatim>\<open>WaitForExecutionPayload\<close>. The probe of \<^verbatim>\<open>WaitForSync\<close> has no lag rule and never records
  a fatal outcome. For a threshold of at least 1 the condition is
  \<open>clockSlot - slot \<ge> threshold\<close> on the integers.
\<close>

theorem lag_fatal_rule:
  assumes "fatal r = None"
  shows "(fatal (WaitSlotsWithMaxMissedSlots_probe maxMissedSlots clock n r) \<noteq> None
            \<longleftrightarrow> lag_at_least clock (head_slot_after_checkpoints n) maxMissedSlots)
       \<and> (fatal (WaitForFork_probe t fork clock n r) \<noteq> None
            \<longleftrightarrow> lag_at_least clock (head_slot_after_checkpoints n) (SLOTS_PER_EPOCH (spec t)))
       \<and> (fatal (WaitForFinality_probe t clock n r) \<noteq> None
            \<longleftrightarrow> lag_at_least clock (head_slot_after_checkpoints n) (SLOTS_PER_EPOCH (spec t)))
       \<and> (fatal (WaitForExecutionFinality_probe t clock n r) \<noteq> None
            \<longleftrightarrow> lag_at_least clock (head_slot n) (SLOTS_PER_EPOCH (spec t)))
       \<and> (fatal (WaitForCurrentEpochFinalization_probe t ep clock n r) \<noteq> None
            \<longleftrightarrow> lag_at_least clock (head_slot n) (SLOTS_PER_EPOCH (spec t)))
       \<and> (fatal (WaitForExecutionPayload_probe t clock n r) \<noteq> None
            \<longleftrightarrow> lag_at_least clock (head_slot n) (SLOTS_PER_EPOCH (spec t)))
       \<and> fatal (WaitForSync_probe n r) = None
       \<and> (threshold \<noteq> 0 \<longrightarrow>
            (lag_at_least clock (Some s) threshold \<longleftrightarrow> uint threshold \<le> uint clock - uint s))"
  using assms lag_claim_form [of threshold clock s]
  by (simp only: WaitSlots_fatal WaitForFork_fatal WaitForFinality_fatal
        WaitForExecutionFinality_fatal WaitForCurrentEpochFinalization_fatal
        WaitForExecutionPayload_fatal WaitForSync_never_fatal simp_thms) blast

lemma ex_lagging_slot:
  "head_slot ex_lagging = Some 0" "head_slot_after_checkpoints ex_lagging = Some 0"
  by (simp_all add: ex_lagging_def ex_node_def head_slot_def head_slot_after_checkpoints_def
        ex_block_def)

theorem lag_fatal_rule_witness:
  "fatal fresh_result = None
   \<and> lag_at_least 100 (Some 0) 32
   \<and> fatal (WaitSlotsWithMaxMissedSlots_probe 32 100 ex_lagging fresh_result) \<noteq> None
   \<and> fatal (WaitForFork_probe ex_testnet ''capella'' 100 ex_lagging fresh_result) \<noteq> None
   \<and> fatal (WaitForFinality_probe ex_testnet 100 ex_lagging fresh_result) \<noteq> None
   \<and> fatal (WaitForExecutionFinality_probe ex_testnet 100 ex_lagging fresh_result) \<noteq> None
   \<and> fatal (WaitForCurrentEpochFinalization_probe ex_testnet 2 100 ex_lagging fresh_result) \<noteq> None
   \<and> fatal (WaitForExecutionPayload_probe ex_testnet 100 ex_lagging fresh_result) \<noteq> None
   \<and> fatal (WaitForSync_probe ex_lagging fresh_result) = None"
  using lag_fatal_rule [of fresh_result 32 100 ex_lagging ex_testnet "''capella''" 2 32 0]
  by (simp add: fresh_result_def ex_lagging_slot ex_testnet_def ex_spec_def lag_at_least_def)

text \<open>
  C3 as stated fails twice. In \<^verbatim>\<open>WaitForSync\<close> a node 100 slots behind, with epochs of 32
  slots, records no fatal outcome. In \<^verbatim>\<open>WaitSlotsWithMaxMissedSlots\<close> with a threshold of
  0 a node level with the clock records none either, although \<open>5 - 5 \<ge> 0\<close>: the source
  also requires the clock to be strictly ahead.
\<close>

theorem lag_rule_counterexample:
  "\<not> (fatal (WaitForSync_probe ex_lagging fresh_result) \<noteq> None
        \<longleftrightarrow> uint (SLOTS_PER_EPOCH (spec ex_testnet)) \<le> uint (100 :: Slot) - uint (0 :: Slot))
   \<and> \<not> (fatal (WaitSlotsWithMaxMissedSlots_probe 0 5 ex_level fresh_result) \<noteq> None
        \<longleftrightarrow> uint (0 :: Slot) \<le> uint (5 :: Slot) - uint (5 :: Slot))"
  by (simp add: WaitForSync_probe_def WaitSlotsWithMaxMissedSlots_probe_def ex_lagging_def
        ex_level_def ex_node_def ex_block_def ex_checkpoints_def fresh_result_def
        ex_testnet_def ex_spec_def empty_Checkpoint_def)

section \<open>Finality\<close>




















section \<open>The terminal-total-difficulty gate\<close>

text \<open>
  When the total-difficulty query fails while the flag is unset, the iteration goes on to
  probe the beacon nodes, and the flag stays unset.
\<close>

lemma ttd_query_error_probes:
  assumes "\<not> ttdReached" and "\<not> before_first_slot t tk"
    and "TotalDifficultyByNumber (responses tk executionClient) = Inl e"
  shows "WaitForExecutionPayload_tick t ns executionClient (rs, ttdReached) tk =
           (WaitForExecutionPayload_after
              (probe_all (WaitForExecutionPayload_probe t (clockSlot tk)) tk ns rs),
            (probe_all (WaitForExecutionPayload_probe t (clockSlot tk)) tk ns rs, False))"
  using assms by (simp add: WaitForExecutionPayload_tick_def ttd_gate_def Let_def)

text \<open>
  C4, as the code has it. While the flag \<open>ttdReached\<close> is unset, a tick on which the
  execution client reports a total difficulty below the terminal one probes no beacon
  node: the iteration ends at once, the result set and the flag are as before, and
  nothing is returned, so the tick cannot fail the wait.
\<close>

theorem ttd_gate_skips_probing:
  assumes "\<not> ttdReached"
    and "TotalDifficultyByNumber (responses tk executionClient) = Inr td"
    and "TerminalTotalDifficulty t = Some ttd"
    and "td < ttd"
  shows "WaitForExecutionPayload_tick t ns executionClient (rs, ttdReached) tk
           = (None, (rs, ttdReached))"
  using assms by (simp add: WaitForExecutionPayload_tick_def ttd_gate_def)

theorem ttd_gate_skips_probing_witness:
  "TotalDifficultyByNumber (responses (ex_tick 100 (\<lambda>_. ex_below_ttd)) 0) = Inr 50
   \<and> TerminalTotalDifficulty ex_testnet = Some 100
   \<and> (50 :: int) < 100
   \<and> WaitForExecutionPayload_tick ex_testnet [0] 0 (makeResults [0] 3, False)
        (ex_tick 100 (\<lambda>_. ex_below_ttd))
       = (None, (makeResults [0] 3, False))"
  using ttd_gate_skips_probing [of False "ex_tick 100 (\<lambda>_. ex_below_ttd)" 0 50 ex_testnet 100
      "[0]" "makeResults [0] 3"]
  by (simp add: ex_tick_def ex_below_ttd_def ex_testnet_def)

text \<open>
  C4 as stated fails on a tick whose total-difficulty query fails: the terminal total
  difficulty has not been observed, yet the beacon node is probed, its head is 100 slots
  behind the clock, and the wait fails with that fatal error.
\<close>

theorem ttd_gate_counterexample:
  "TotalDifficultyByNumber (responses (ex_tick 100 (\<lambda>_. ex_lagging)) 0)
     = Inl (ClientError ''connection refused'')
   \<and> fst (WaitForExecutionPayload_tick ex_testnet [0] 0 (makeResults [0] 3, False)
            (ex_tick 100 (\<lambda>_. ex_lagging)))
       = Some (Err (UnableToSync 100 0))"
  using ex_not_before [of 100 "\<lambda>_. ex_lagging"]
  by (simp add: WaitForExecutionPayload_tick_def ttd_gate_def ex_lagging_def ex_node_def
        ex_block_def ex_tick_def probe_all_def Clear_def clear_result_def makeResults_def
        fresh_result_def Record_def WaitForExecutionPayload_probe_def
        WaitForExecutionPayload_after_def CheckError_def ex_testnet_def ex_spec_def)

section \<open>The health score of a participation registry\<close>

lemma GetHealth_participation:
  assumes "BeaconStateV2 bn slot = Inr st" and "CurrentEpochParticipation st = Some p"
  shows "GetHealth isqrt bn sp slot = Ok (calcHealth p)"
  using assms by (simp add: GetHealth_def)

lemma calcHealth_fdiv:
  "calcHealth p =
     fdiv (fdiv (Num (of_int (sum_list (map uint p)))) (Num (of_nat (length p)))) (Num 7)"
  by (simp add: calcHealth_def float64_of_int_def MAX_PARTICIPATION_SCORE_def)

lemma calcHealth_mean:
  assumes "p \<noteq> []"
  shows "calcHealth p = Num (of_int (sum_list (map uint p)) / of_nat (length p) / 7)"
  using assms by (simp add: calcHealth_fdiv)

lemma calcHealth_example: "calcHealth [7, 7, 7, 0] = Num (3 / 4)"
  by (simp add: calcHealth_fdiv)

text \<open>
  C7, as the code has it. Whenever the fetched state exposes a current-epoch participation
  registry, \<^verbatim>\<open>GetHealth\<close> returns \<^verbatim>\<open>calcHealth\<close> of it with no error: the sum of the values
  over their number, over 7, in floating point, which for a non-empty registry is the
  mean over 7. The registry \<open>[7, 7, 7, 0]\<close> yields \<open>21 / 4 / 7 = 0.75\<close> (both quotients are
  exact in binary64).
\<close>

theorem participation_health:
  "(BeaconStateV2 bn slot = Inr st \<and> CurrentEpochParticipation st = Some p \<longrightarrow>
      GetHealth isqrt bn sp slot = Ok (calcHealth p))
   \<and> calcHealth p =
       fdiv (fdiv (Num (of_int (sum_list (map uint p)))) (Num (of_nat (length p)))) (Num 7)
   \<and> (p \<noteq> [] \<longrightarrow>
        calcHealth p = Num (of_int (sum_list (map uint p)) / of_nat (length p) / 7))
   \<and> calcHealth [7, 7, 7, 0] = Num (3 / 4)"
  using GetHealth_participation calcHealth_fdiv calcHealth_mean calcHealth_example by blast

theorem participation_health_witness:
  "BeaconStateV2 (ex_altair_client [7, 7, 7, 0]) 64 = Inr (ex_altair_state [7, 7, 7, 0])
   \<and> CurrentEpochParticipation (ex_altair_state [7, 7, 7, 0]) = Some [7, 7, 7, 0]
   \<and> [7, 7, 7, 0 :: 8 word] \<noteq> []
   \<and> GetHealth (\<lambda>_. 1) (ex_altair_client [7, 7, 7, 0]) ex_spec 64 = Ok (Num (3 / 4))"
  using participation_health [of "ex_altair_client [7, 7, 7, 0]" 64
      "ex_altair_state [7, 7, 7, 0]" "[7, 7, 7, 0]" "\<lambda>_. 1" ex_spec]
  by (simp add: ex_altair_client_def ex_altair_state_def)

text \<open>
  The value that C7 gives for \<open>[7, 7, 7, 0]\<close>, about 0.7143, is not what the code returns:
  the score is 0.75, more than a thousandth away.
\<close>

theorem participation_example_counterexample:
  "calcHealth [7, 7, 7, 0] = Num (3 / 4)
   \<and> \<not> \<bar>(3 / 4 :: real) - 7143 / 10000\<bar> \<le> 1 / 1000"
  by (simp add: calcHealth_fdiv)

text \<open>
  C10. \<^verbatim>\<open>calcHealth\<close> divides by the length of the registry without a guard: for an
  empty registry it computes zero over zero, which is NaN, and NaN over 7 is NaN. A state
  that exposes an empty (non-nil) registry makes \<^verbatim>\<open>GetHealth\<close> return NaN with no error.
\<close>

theorem empty_registry_NaN:
  "calcHealth [] = NaN
   \<and> (BeaconStateV2 bn slot = Inr st \<and> CurrentEpochParticipation st = Some [] \<longrightarrow>
        GetHealth isqrt bn sp slot = Ok NaN)"
  by (simp add: GetHealth_def calcHealth_fdiv)

theorem empty_registry_NaN_witness:
  "BeaconStateV2 (ex_altair_client []) 64 = Inr (ex_altair_state [])
   \<and> CurrentEpochParticipation (ex_altair_state []) = Some []
   \<and> GetHealth (\<lambda>_. 1) (ex_altair_client []) ex_spec 64 = Ok NaN"
  using empty_registry_NaN [of "ex_altair_client []" 64 "ex_altair_state []" "\<lambda>_. 1" ex_spec]
  by (simp add: ex_altair_client_def ex_altair_state_def)

section \<open>The health score from balances\<close>

text \<open>
  The phase0 path of \<^verbatim>\<open>GetHealth\<close>: the validators picked are those whose eligibility
  epoch has been reached, that have not exited and are not slashed at the epoch of the
  slot; their balances are read at the first slot of the previous epoch (of epoch 0 when
  the slot is in epoch 0) and at the first slot of the current epoch.
\<close>

lemma GetHealth_phase0:
  assumes "BeaconStateV2 bn slot = Inr st" and "CurrentEpochParticipation st = None"
    and "state_Version st = ''phase0''" and "phase0_Data st = Some validators"
    and "SLOTS_PER_EPOCH sp \<noteq> 0"
    and "StateValidatorBalances bn
           ((if SlotToEpoch sp slot \<noteq> 0 then SlotToEpoch sp slot - 1 else 0) * SLOTS_PER_EPOCH sp)
           (active_validator_ids (SlotToEpoch sp slot) validators) = Inr balancesBefore"
    and "StateValidatorBalances bn (SlotToEpoch sp slot * SLOTS_PER_EPOCH sp)
           (active_validator_ids (SlotToEpoch sp slot) validators) = Inr balancesAfter"
  shows "GetHealth isqrt bn sp slot = legacyCalcHealth isqrt sp balancesBefore balancesAfter"
  using assms by (simp add: GetHealth_def Let_def)

text \<open>
  One validator whose balance falls from 32 000 000 000 to 31 000 000 000 Gwei: the
  difference of the averages is taken on \<^verbatim>\<open>uint64\<close> and wraps around to \<open>2^64 - 10^9\<close>.
\<close>

lemma legacy_example:
  "legacyCalcHealth isqrt ex_spec [32000000000] [31000000000] =
     (if isqrt 32000000000 = 0 then Panic IntegerDivideByZero
      else Ok (fdiv (Num 18446744072709551616)
                 (float64_of_uint64 (32000000000 * 64 div isqrt 32000000000 div 4 * 4))))"
  by (simp add: legacyCalcHealth_def ex_spec_def big_Uint64_def float64_of_uint64_def
        BASE_REWARDS_PER_EPOCH_def Let_def)

text \<open>
  C6. The claim gives the score as
  \<open>(avgBalanceAfter - avgBalanceBefore) / (reward * BASE_REWARDS_PER_EPOCH)\<close>. For the
  phase0 state of \<open>ex_phase0_client\<close> at slot 64 (epoch 2), with the integer square root
  \<open>178885\<close> of the total balance, the reward is \<open>2862174\<close> and the claim's score is
  \<open>- 10^9 / 11448696\<close>, below zero; the code returns \<open>(2^64 - 10^9) / 11448696\<close>.
\<close>

theorem legacy_health_wraps:
  "GetHealth (\<lambda>_. 178885) ex_phase0_client ex_spec 64
     = Ok (Num (18446744072709551616 / 11448696))
   \<and> legacyCalcHealth (\<lambda>_. 178885) ex_spec [32000000000] [31000000000]
     = Ok (Num (18446744072709551616 / 11448696))
   \<and> (178885 :: nat)\<^sup>2 \<le> 32000000000 \<and> (32000000000 :: nat) < 178886\<^sup>2
   \<and> (32000000000 * 64 div 178885 div 4 :: nat) = 2862174
   \<and> (31000000000 - 32000000000) / (2862174 * 4 :: real) < 0"
proof -
  have l: "legacyCalcHealth (\<lambda>_. 178885) ex_spec [32000000000] [31000000000]
     = Ok (Num (18446744072709551616 / 11448696))"
    by (simp add: legacy_example float64_of_uint64_def)
  have "GetHealth (\<lambda>_. 178885) ex_phase0_client ex_spec 64
     = legacyCalcHealth (\<lambda>_. 178885) ex_spec [32000000000] [31000000000]"
    by (simp add: GetHealth_def ex_phase0_client_def ex_phase0_state_def ex_spec_def
          SlotToEpoch_def active_validator_ids_def Let_def)
  with l show ?thesis by simp
qed

end
